theory Spec2Isabelle
  imports Main
begin

section \<open>Errors\<close>

text \<open>
  A Go \<^verbatim>\<open>error\<close> is an interface value that may be nil: it is an \<open>error option\<close>, with
  \<open>None\<close> for nil. \<open>Canceled\<close> stands for \<^verbatim>\<open>context.Canceled\<close>, \<open>Failure\<close> for any error
  that is no cancellation, \<open>Combined\<close> for the error \<^verbatim>\<open>errs.Group.Err\<close> builds from
  several errors.
\<close>

datatype error = Canceled | Failure string | Combined "error list"

text \<open>
  Modelled from the spec: \<^verbatim>\<open>errs.Group\<close> and \<^verbatim>\<open>errs.Combine\<close> of the library
  github.com/zeebo/errs, which is not among the sources. The spec (4.3, 7) has the errors
  ``collected and returned together as one combined error (or no error if every close
  succeeded)''. A group is a slice of errors; \<^verbatim>\<open>Add\<close> appends an error unless it is nil;
  \<^verbatim>\<open>Err\<close> is nil for the empty group, a combined error for several errors and, as the
  library documents, the error itself for a group of one; \<^verbatim>\<open>errs.Combine(a, b)\<close> adds
  both to a fresh group and takes its \<^verbatim>\<open>Err\<close>.
\<close>

type_synonym Group = "error list"

definition Group_Add :: "Group \<Rightarrow> error option \<Rightarrow> Group" where
  "Group_Add errlist e = (case e of None \<Rightarrow> errlist | Some x \<Rightarrow> errlist @ [x])"

definition Group_Err :: "Group \<Rightarrow> error option" where
  "Group_Err errlist =
     (case errlist of [] \<Rightarrow> None | [x] \<Rightarrow> Some x | _ \<Rightarrow> Some (Combined errlist))"

definition Combine :: "error option \<Rightarrow> error option \<Rightarrow> error option" where
  "Combine e1 e2 = Group_Err (Group_Add (Group_Add [] e1) e2)"

text \<open>
  Modelled from the spec: \<^verbatim>\<open>errs2.IgnoreCanceled\<close> of storj.io/common, which is not among
  the sources. The spec (4.2): errors equal to ``context canceled'' are ``treated as
  benign and reported as no error''. Nil when the error is the cancellation, the error
  itself otherwise.
\<close>

definition IgnoreCanceled :: "error option \<Rightarrow> error option" where
  "IgnoreCanceled e = (if e = Some Canceled then None else e)"

section \<open>Subsystems\<close>

text \<open>
  The subsystems are other packages' objects. The supervisor only constructs them, hands
  them to one another, runs them and closes them, so a subsystem is modelled by the
  constructor call that made it: the constructor's name and, in the order of the call,
  those of its arguments that are themselves subsystems read from a field of \<^verbatim>\<open>peer\<close>
  (each may be nil). Loggers, repositories of \<^verbatim>\<open>peer.DB\<close>, the identity and
  configuration values are left out of the argument list.
\<close>

datatype ctor =
    version_checker_NewService
  | rpc_NewDefaultDialer
  | contact_NewService
  | overlay_NewCombinedCache
  | overlay_NewService
  | accounting_NewService
  | orders_NewService
  | metainfo_NewService
  | metainfo_NewLoop
  | checker_NewChecker
  | repairer_NewSegmentRepairer
  | repairer_NewService
  | audit_Queue
  | audit_NewVerifier
  | audit_NewReporter
  | audit_NewWorker
  | audit_NewChore
  | gc_NewService
  | dbcleanup_NewChore
  | tally_New
  | rollup_New
  | mockpayments_Accounts
  | stripecoinpayments_NewService
  | stripecoinpayments_Service_Accounts
  | stripecoinpayments_NewChore
  | gracefulexit_NewChore
  | metrics_NewChore
  | downtime_NewService
  | downtime_NewDetectionChore
  | caller_pointerDB
  | caller_liveAccounting

datatype obj = Obj (ctor_of: ctor) (args_of: "obj option list")

text \<open>
  The struct \<^verbatim>\<open>Core\<close>: one field per pointer or interface field of the Go struct, nil
  being \<open>None\<close>. The nested anonymous structs are flattened (\<^verbatim>\<open>peer.Overlay.Service\<close> is
  \<open>Overlay_Service\<close>); \<^verbatim>\<open>Log\<close>, \<^verbatim>\<open>Identity\<close> and \<^verbatim>\<open>DB\<close> are the caller's and are left out.
\<close>

record Core =
  Dialer :: "obj option"
  Version :: "obj option"
  Contact_Service :: "obj option"
  Overlay_DB :: "obj option"
  Overlay_Service :: "obj option"
  Metainfo_Database :: "obj option"
  Metainfo_Service :: "obj option"
  Metainfo_Loop :: "obj option"
  Orders_Service :: "obj option"
  Repair_Checker :: "obj option"
  Repair_Repairer :: "obj option"
  Audit_Queue :: "obj option"
  Audit_Worker :: "obj option"
  Audit_Chore :: "obj option"
  Audit_Verifier :: "obj option"
  Audit_Reporter :: "obj option"
  GarbageCollection_Service :: "obj option"
  DBCleanup_Chore :: "obj option"
  Accounting_Tally :: "obj option"
  Accounting_Rollup :: "obj option"
  Accounting_ProjectUsage :: "obj option"
  LiveAccounting_Cache :: "obj option"
  Payments_Accounts :: "obj option"
  Payments_Chore :: "obj option"
  GracefulExit_Chore :: "obj option"
  Metrics_Chore :: "obj option"
  DowntimeTracking_DetectionChore :: "obj option"
  DowntimeTracking_Service :: "obj option"

text \<open>\<^verbatim>\<open>&Core{Log: log, Identity: full, DB: db}\<close>: every other field is nil.\<close>

definition Core_literal :: Core where
  "Core_literal = \<lparr>
     Dialer = None, Version = None, Contact_Service = None, Overlay_DB = None,
     Overlay_Service = None, Metainfo_Database = None, Metainfo_Service = None,
     Metainfo_Loop = None, Orders_Service = None, Repair_Checker = None,
     Repair_Repairer = None, Audit_Queue = None, Audit_Worker = None, Audit_Chore = None,
     Audit_Verifier = None, Audit_Reporter = None, GarbageCollection_Service = None,
     DBCleanup_Chore = None, Accounting_Tally = None, Accounting_Rollup = None,
     Accounting_ProjectUsage = None, LiveAccounting_Cache = None, Payments_Accounts = None,
     Payments_Chore = None, GracefulExit_Chore = None, Metrics_Chore = None,
     DowntimeTracking_DetectionChore = None, DowntimeTracking_Service = None \<rparr>"

section \<open>Effects\<close>

text \<open>
  What the supervisor does to the outside is kept as a history of events, oldest first:
  a constructor call that produced a subsystem, a call of a subsystem's \<^verbatim>\<open>Close\<close>, a log
  line (logger name, level, message).
\<close>

datatype level = Debug | Info

datatype event = Built obj | CloseCall obj | LogLine string level string

text \<open>
  What a subsystem's own methods return is not the supervisor's to decide. It is a
  parameter: \<open>close_result env x h\<close> is what \<^verbatim>\<open>x.Close()\<close> returns when the history so far
  is \<open>h\<close> (so it may depend on whether \<open>x\<close> was closed before), and \<open>run_result env x c\<close>
  is what \<^verbatim>\<open>x.Run(ctx)\<close> returns, \<open>c\<close> telling whether \<^verbatim>\<open>ctx\<close> had been canceled by the
  group when the call returned. A method of a subsystem that is there does return.
\<close>

record env =
  close_result :: "obj \<Rightarrow> event list \<Rightarrow> error option"
  run_result :: "obj \<Rightarrow> bool \<Rightarrow> error option"

text \<open>
  A call either returns or panics. The only panic modelled is a method call through a
  nil slot: the comment in \<^verbatim>\<open>Close\<close> (``ensure that Close can be called on nil-s that way
  this code won't need the checks'') says that such a call is not safe.
\<close>

datatype 'a outcome = Panic | Return 'a

definition invoke_Close :: "env \<Rightarrow> obj option \<Rightarrow> event list \<Rightarrow> (error option \<times> event list) outcome" where
  "invoke_Close env slot h =
     (case slot of
        None \<Rightarrow> Panic
      | Some x \<Rightarrow> Return (close_result env x h, h @ [CloseCall x]))"

section \<open>Core.Close\<close>

text \<open>
  One statement of \<^verbatim>\<open>Close\<close>:
  \<^verbatim>\<open>if peer.X != nil { errlist.Add(peer.X.Close()) }\<close>,
  on the state made of \<^verbatim>\<open>errlist\<close> and the history. After a panic nothing more happens.
\<close>

definition close_if_set :: "env \<Rightarrow> obj option \<Rightarrow> (Group \<times> event list) outcome \<Rightarrow> (Group \<times> event list) outcome" where
  "close_if_set env slot r =
     (case r of
        Panic \<Rightarrow> Panic
      | Return (errlist, h) \<Rightarrow>
          if slot \<noteq> None then
            (case invoke_Close env slot h of
               Panic \<Rightarrow> Panic
             | Return (e, h') \<Rightarrow> Return (Group_Add errlist e, h'))
          else Return (errlist, h))"

definition Close :: "env \<Rightarrow> Core \<Rightarrow> event list \<Rightarrow> (error option \<times> event list) outcome" where
  "Close env peer h =
     (let r = Return ([], h);
          r = close_if_set env (DowntimeTracking_DetectionChore peer) r;
          r = close_if_set env (Metrics_Chore peer) r;
          r = close_if_set env (GracefulExit_Chore peer) r;
          r = close_if_set env (Audit_Chore peer) r;
          r = close_if_set env (Audit_Worker peer) r;
          r = close_if_set env (Accounting_Rollup peer) r;
          r = close_if_set env (Accounting_Tally peer) r;
          r = close_if_set env (DBCleanup_Chore peer) r;
          r = close_if_set env (Repair_Repairer peer) r;
          r = close_if_set env (Repair_Checker peer) r;
          r = close_if_set env (Overlay_Service peer) r;
          r = close_if_set env (Contact_Service peer) r;
          r = close_if_set env (Metainfo_Loop peer) r
      in case r of
           Panic \<Rightarrow> Panic
         | Return (errlist, h') \<Rightarrow> Return (Group_Err errlist, h'))"

section \<open>New\<close>

text \<open>
  Of \<^verbatim>\<open>config\<close> only the two fields that steer the construction are kept. The results
  of the calls into other packages that can fail are inputs: the error of
  \<^verbatim>\<open>tlsopts.NewOptions\<close>, the error of \<^verbatim>\<open>versionInfo.Proto()\<close>, and both results of
  \<^verbatim>\<open>audit.NewWorker\<close> (whether the worker it returns is non-nil, and its error: the code
  stores the worker before it looks at the error). \<open>pointerDB\<close> and \<open>liveAccounting\<close>
  are the caller's objects.
\<close>

record Config =
  GracefulExit_Enabled :: bool
  Payments_Provider :: string

record inputs =
  versionInfo_IsZero :: bool
  tlsopts_NewOptions_err :: "error option"
  versionInfo_Proto_err :: "error option"
  audit_NewWorker_ret :: "bool \<times> error option"
  pointerDB :: "obj option"
  liveAccounting :: "obj option"

type_synonym build = "Core \<times> event list"

text \<open>The blocks of \<^verbatim>\<open>New\<close>, one definition for each, in the order of the source.\<close>

definition setup_version_control :: "inputs \<Rightarrow> build \<Rightarrow> build" where
  "setup_version_control inp s =
     (case s of (peer, h) \<Rightarrow>
        let h = (if \<not> versionInfo_IsZero inp
                 then h @ [LogLine [] Debug ''Binary Version: %s with CommitHash %s, built at %s as Release %v'']
                 else h);
            version = Obj version_checker_NewService []
        in (peer\<lparr>Version := Some version\<rparr>, h @ [Built version]))"

definition setup_dialer :: "build \<Rightarrow> build" where
  "setup_dialer s =
     (case s of (peer, h) \<Rightarrow>
        let dialer = Obj rpc_NewDefaultDialer []
        in (peer\<lparr>Dialer := Some dialer\<rparr>, h @ [Built dialer]))"

definition setup_contact_service :: "build \<Rightarrow> build" where
  "setup_contact_service s =
     (case s of (peer, h) \<Rightarrow>
        let service = Obj contact_NewService [Overlay_Service peer, Dialer peer]
        in (peer\<lparr>Contact_Service := Some service\<rparr>, h @ [Built service]))"

definition setup_overlay :: "build \<Rightarrow> build" where
  "setup_overlay s =
     (case s of (peer, h) \<Rightarrow>
        let db = Obj overlay_NewCombinedCache [];
            peer = peer\<lparr>Overlay_DB := Some db\<rparr>;
            service = Obj overlay_NewService [Overlay_DB peer]
        in (peer\<lparr>Overlay_Service := Some service\<rparr>, h @ [Built db, Built service]))"

definition setup_live_accounting :: "inputs \<Rightarrow> build \<Rightarrow> build" where
  "setup_live_accounting inp s =
     (case s of (peer, h) \<Rightarrow> (peer\<lparr>LiveAccounting_Cache := liveAccounting inp\<rparr>, h))"

definition setup_accounting_project_usage :: "build \<Rightarrow> build" where
  "setup_accounting_project_usage s =
     (case s of (peer, h) \<Rightarrow>
        let usage = Obj accounting_NewService [LiveAccounting_Cache peer]
        in (peer\<lparr>Accounting_ProjectUsage := Some usage\<rparr>, h @ [Built usage]))"

definition setup_orders :: "build \<Rightarrow> build" where
  "setup_orders s =
     (case s of (peer, h) \<Rightarrow>
        let service = Obj orders_NewService [Overlay_Service peer]
        in (peer\<lparr>Orders_Service := Some service\<rparr>, h @ [Built service]))"

definition setup_metainfo :: "inputs \<Rightarrow> build \<Rightarrow> build" where
  "setup_metainfo inp s =
     (case s of (peer, h) \<Rightarrow>
        let peer = peer\<lparr>Metainfo_Database := pointerDB inp\<rparr>;
            service = Obj metainfo_NewService [Metainfo_Database peer];
            peer = peer\<lparr>Metainfo_Service := Some service\<rparr>;
            loop = Obj metainfo_NewLoop [Metainfo_Database peer]
        in (peer\<lparr>Metainfo_Loop := Some loop\<rparr>, h @ [Built service, Built loop]))"

definition setup_datarepair :: "build \<Rightarrow> build" where
  "setup_datarepair s =
     (case s of (peer, h) \<Rightarrow>
        let checker = Obj checker_NewChecker
              [Metainfo_Service peer, Metainfo_Loop peer, Overlay_Service peer];
            peer = peer\<lparr>Repair_Checker := Some checker\<rparr>;
            segmentRepairer = Obj repairer_NewSegmentRepairer
              [Metainfo_Service peer, Orders_Service peer, Overlay_Service peer, Dialer peer];
            service = Obj repairer_NewService [Some segmentRepairer]
        in (peer\<lparr>Repair_Repairer := Some service\<rparr>,
            h @ [Built checker, Built segmentRepairer, Built service]))"

text \<open>
  The audit block up to and with the assignment
  \<^verbatim>\<open>peer.Audit.Worker, err = audit.NewWorker(...)\<close>; the test of \<^verbatim>\<open>err\<close> is in \<open>New\<close>.
\<close>

definition setup_audit_worker :: "inputs \<Rightarrow> build \<Rightarrow> build" where
  "setup_audit_worker inp s =
     (case s of (peer, h) \<Rightarrow>
        let queue = Obj audit_Queue [];
            peer = peer\<lparr>Audit_Queue := Some queue\<rparr>;
            verifier = Obj audit_NewVerifier
              [Metainfo_Service peer, Dialer peer, Overlay_Service peer, Orders_Service peer];
            peer = peer\<lparr>Audit_Verifier := Some verifier\<rparr>;
            reporter = Obj audit_NewReporter [Overlay_Service peer];
            peer = peer\<lparr>Audit_Reporter := Some reporter\<rparr>;
            worker = Obj audit_NewWorker
              [Audit_Queue peer, Audit_Verifier peer, Audit_Reporter peer]
        in if fst (audit_NewWorker_ret inp)
           then (peer\<lparr>Audit_Worker := Some worker\<rparr>,
                 h @ [Built queue, Built verifier, Built reporter, Built worker])
           else (peer\<lparr>Audit_Worker := None\<rparr>,
                 h @ [Built queue, Built verifier, Built reporter]))"

definition setup_audit_chore :: "build \<Rightarrow> build" where
  "setup_audit_chore s =
     (case s of (peer, h) \<Rightarrow>
        let chore = Obj audit_NewChore [Audit_Queue peer, Metainfo_Loop peer]
        in (peer\<lparr>Audit_Chore := Some chore\<rparr>, h @ [Built chore]))"

definition setup_garbage_collection :: "build \<Rightarrow> build" where
  "setup_garbage_collection s =
     (case s of (peer, h) \<Rightarrow>
        let service = Obj gc_NewService [Dialer peer, Overlay_DB peer, Metainfo_Loop peer]
        in (peer\<lparr>GarbageCollection_Service := Some service\<rparr>, h @ [Built service]))"

definition setup_db_cleanup :: "build \<Rightarrow> build" where
  "setup_db_cleanup s =
     (case s of (peer, h) \<Rightarrow>
        let chore = Obj dbcleanup_NewChore []
        in (peer\<lparr>DBCleanup_Chore := Some chore\<rparr>, h @ [Built chore]))"

definition setup_accounting :: "build \<Rightarrow> build" where
  "setup_accounting s =
     (case s of (peer, h) \<Rightarrow>
        let tally = Obj tally_New [LiveAccounting_Cache peer, Metainfo_Loop peer];
            peer = peer\<lparr>Accounting_Tally := Some tally\<rparr>;
            rollup = Obj rollup_New []
        in (peer\<lparr>Accounting_Rollup := Some rollup\<rparr>, h @ [Built tally, Built rollup]))"

text \<open>
  \<^verbatim>\<open>switch pc.Provider\<close>: the case \<^verbatim>\<open>"stripecoinpayments"\<close> when the strings are equal,
  \<^verbatim>\<open>default\<close> (written first in the source) for every other value.
\<close>

definition setup_payments :: "Config \<Rightarrow> build \<Rightarrow> build" where
  "setup_payments config s =
     (case s of (peer, h) \<Rightarrow>
        if Payments_Provider config = ''stripecoinpayments'' then
          let service = Obj stripecoinpayments_NewService [];
              accounts = Obj stripecoinpayments_Service_Accounts [Some service];
              peer = peer\<lparr>Payments_Accounts := Some accounts\<rparr>;
              chore = Obj stripecoinpayments_NewChore [Some service]
          in (peer\<lparr>Payments_Chore := Some chore\<rparr>,
              h @ [Built service, Built accounts, Built chore])
        else
          let accounts = Obj mockpayments_Accounts []
          in (peer\<lparr>Payments_Accounts := Some accounts\<rparr>, h @ [Built accounts]))"

definition setup_graceful_exit :: "Config \<Rightarrow> build \<Rightarrow> build" where
  "setup_graceful_exit config s =
     (case s of (peer, h) \<Rightarrow>
        if GracefulExit_Enabled config then
          let chore = Obj gracefulexit_NewChore [Overlay_DB peer, Metainfo_Loop peer]
          in (peer\<lparr>GracefulExit_Chore := Some chore\<rparr>, h @ [Built chore])
        else (peer, h @ [LogLine ''gracefulexit'' Info ''disabled'']))"

definition setup_metrics :: "build \<Rightarrow> build" where
  "setup_metrics s =
     (case s of (peer, h) \<Rightarrow>
        let chore = Obj metrics_NewChore [Metainfo_Loop peer]
        in (peer\<lparr>Metrics_Chore := Some chore\<rparr>, h @ [Built chore]))"

definition setup_downtime_tracking :: "build \<Rightarrow> build" where
  "setup_downtime_tracking s =
     (case s of (peer, h) \<Rightarrow>
        let service = Obj downtime_NewService [Overlay_Service peer, Contact_Service peer];
            peer = peer\<lparr>DowntimeTracking_Service := Some service\<rparr>;
            chore = Obj downtime_NewDetectionChore
              [Overlay_Service peer, DowntimeTracking_Service peer]
        in (peer\<lparr>DowntimeTracking_DetectionChore := Some chore\<rparr>,
            h @ [Built service, Built chore]))"

text \<open>\<^verbatim>\<open>return nil, errs.Combine(err, peer.Close())\<close>.\<close>

definition return_failure :: "env \<Rightarrow> error \<Rightarrow> build \<Rightarrow> ((Core option \<times> error option) \<times> event list) outcome" where
  "return_failure env err s =
     (case s of (peer, h) \<Rightarrow>
        (case Close env peer h of
           Panic \<Rightarrow> Panic
         | Return (close_err, h') \<Rightarrow> Return ((None, Combine (Some err) close_err), h')))"

text \<open>
  \<^verbatim>\<open>New\<close>: the supervisor (nil on failure), the error, and the history it leaves.
\<close>

definition New :: "env \<Rightarrow> inputs \<Rightarrow> Config \<Rightarrow> event list \<Rightarrow> ((Core option \<times> error option) \<times> event list) outcome" where
  "New env inp config h =
     (let s = setup_version_control inp (Core_literal, h);
          s = (fst s, snd s @ [LogLine [] Debug ''Starting listener and server''])
      in case tlsopts_NewOptions_err inp of
           Some err \<Rightarrow> return_failure env err s
         | None \<Rightarrow>
      let s = setup_dialer s
      in case versionInfo_Proto_err inp of
           Some err \<Rightarrow> return_failure env err s
         | None \<Rightarrow>
      let s = setup_contact_service s;
          s = setup_overlay s;
          s = setup_live_accounting inp s;
          s = setup_accounting_project_usage s;
          s = setup_orders s;
          s = setup_metainfo inp s;
          s = setup_datarepair s;
          s = setup_audit_worker inp s
      in case snd (audit_NewWorker_ret inp) of
           Some err \<Rightarrow> return_failure env err s
         | None \<Rightarrow>
      let s = setup_audit_chore s;
          s = setup_garbage_collection s;
          s = setup_db_cleanup s;
          s = setup_accounting s;
          s = setup_payments config s;
          s = setup_graceful_exit config s;
          s = setup_metrics s;
          s = setup_downtime_tracking s
      in Return ((Some (fst s), None), snd s))"

section \<open>Core.Run\<close>

text \<open>
  The receivers of the closures handed to \<^verbatim>\<open>group.Go\<close>, in the order of the source. Two
  of them are launched only when their slot is not nil; the others without a test.
\<close>

definition launched :: "Core \<Rightarrow> obj option list" where
  "launched peer =
     [Metainfo_Loop peer, Version peer, Repair_Checker peer, Repair_Repairer peer,
      DBCleanup_Chore peer, Accounting_Tally peer, Accounting_Rollup peer,
      Audit_Worker peer, Audit_Chore peer, GarbageCollection_Service peer]
     @ (if GracefulExit_Chore peer \<noteq> None then [GracefulExit_Chore peer] else [])
     @ [Metrics_Chore peer]
     @ (if Payments_Chore peer \<noteq> None then [Payments_Chore peer] else [])
     @ [DowntimeTracking_DetectionChore peer]"

text \<open>
  One closure, \<^verbatim>\<open>func() error { return errs2.IgnoreCanceled(peer.X.Run(ctx)) }\<close>, run to
  its end on a subsystem that is there.
\<close>

definition task :: "env \<Rightarrow> obj \<Rightarrow> bool \<Rightarrow> error option" where
  "task env x canceled = IgnoreCanceled (run_result env x canceled)"

text \<open>
  Modelled from the spec: \<^verbatim>\<open>errgroup.Group\<close> of golang.org/x/sync, which is not among the
  sources. The spec (4.2): the first error from any closure cancels the shared context,
  and \<^verbatim>\<open>Wait\<close> returns only after all closures have returned, with the first error. So
  the first closure to return a non-nil error has that error kept and the group's
  context canceled, and later errors are dropped.
\<close>

record errgroup =
  kept :: "error option"
  ctx_canceled :: bool

definition closure_returned :: "errgroup \<Rightarrow> error option \<Rightarrow> errgroup" where
  "closure_returned g e =
     (case e of
        None \<Rightarrow> g
      | Some x \<Rightarrow> if kept g = None then g\<lparr>kept := Some x, ctx_canceled := True\<rparr> else g)"

text \<open>
  The closures return in some order, which the scheduler and the subsystems decide:
  \<open>order\<close> lists the positions in \<open>launched\<close> of the closures in the order in which they
  return (\<open>Run\<close> below only passes positions that exist). A closure whose slot is nil
  calls \<^verbatim>\<open>Run\<close> through a nil pointer.
\<close>

fun returns :: "env \<Rightarrow> obj option list \<Rightarrow> nat list \<Rightarrow> errgroup \<Rightarrow> errgroup outcome" where
  "returns env ts [] g = Return g"
| "returns env ts (i # order) g =
     (case ts ! i of
        None \<Rightarrow> Panic
      | Some x \<Rightarrow> returns env ts order (closure_returned g (task env x (ctx_canceled g))))"

text \<open>
  \<^verbatim>\<open>Run\<close> returns what \<^verbatim>\<open>group.Wait()\<close> returns, once every launched closure has
  returned: when \<open>order\<close> names every launched closure once. Otherwise some closure
  has not returned and neither does \<^verbatim>\<open>Run\<close>: the result is \<open>None\<close>. The deferred
  \<^verbatim>\<open>mon.Task()\<close> only reports to the monitoring package and is left out.
\<close>

definition Run :: "env \<Rightarrow> nat list \<Rightarrow> Core \<Rightarrow> error option outcome option" where
  "Run env order peer =
     (let ts = launched peer
      in if sort order = [0..<length ts]
         then Some (case returns env ts order \<lparr>kept = None, ctx_canceled = False\<rparr> of
                      Panic \<Rightarrow> Panic
                    | Return g \<Rightarrow> Return (kept g))
         else None)"

section \<open>Notions used to state the properties\<close>

text \<open>The non-nil entries of a list of slots, in order.\<close>

fun non_nil :: "'a option list \<Rightarrow> 'a list" where
  "non_nil [] = []"
| "non_nil (None # slots) = non_nil slots"
| "non_nil (Some x # slots) = x # non_nil slots"

text \<open>The slots \<^verbatim>\<open>Close\<close> tests, in the order of its statements.\<close>

definition closing_sequence :: "Core \<Rightarrow> obj option list" where
  "closing_sequence peer =
     [DowntimeTracking_DetectionChore peer, Metrics_Chore peer, GracefulExit_Chore peer,
      Audit_Chore peer, Audit_Worker peer, Accounting_Rollup peer, Accounting_Tally peer,
      DBCleanup_Chore peer, Repair_Repairer peer, Repair_Checker peer,
      Overlay_Service peer, Contact_Service peer, Metainfo_Loop peer]"

text \<open>The slots \<^verbatim>\<open>Close\<close> never reads.\<close>

definition not_closed :: "Core \<Rightarrow> obj option list" where
  "not_closed peer =
     [Version peer, Orders_Service peer, Metainfo_Service peer,
      GarbageCollection_Service peer, Accounting_ProjectUsage peer, Payments_Chore peer,
      DowntimeTracking_Service peer]"

text \<open>
  What the subsystems \<open>xs\<close> return when their \<^verbatim>\<open>Close\<close> methods are called one after
  the other, starting from history \<open>h\<close>.
\<close>

fun close_results :: "env \<Rightarrow> obj list \<Rightarrow> event list \<Rightarrow> error option list" where
  "close_results env [] h = []"
| "close_results env (x # xs) h =
     close_result env x h # close_results env xs (h @ [CloseCall x])"

text \<open>The subsystems a history closed, and those it built, in order.\<close>

fun closed_objs :: "event list \<Rightarrow> obj list" where
  "closed_objs [] = []"
| "closed_objs (CloseCall x # h) = x # closed_objs h"
| "closed_objs (_ # h) = closed_objs h"

fun built_objs :: "event list \<Rightarrow> obj list" where
  "built_objs [] = []"
| "built_objs (Built x # h) = x # built_objs h"
| "built_objs (_ # h) = built_objs h"

text \<open>
  The supervisor under construction at the three places where \<^verbatim>\<open>New\<close> can fail: when
  \<^verbatim>\<open>tlsopts.NewOptions\<close> has returned, when \<^verbatim>\<open>versionInfo.Proto()\<close> has returned, and when
  the error of \<^verbatim>\<open>audit.NewWorker\<close> is tested; and at the end of \<^verbatim>\<open>New\<close>.
\<close>

definition at_tls_options :: "inputs \<Rightarrow> event list \<Rightarrow> build" where
  "at_tls_options inp h =
     (let s = setup_version_control inp (Core_literal, h)
      in (fst s, snd s @ [LogLine [] Debug ''Starting listener and server'']))"

definition at_version_proto :: "inputs \<Rightarrow> event list \<Rightarrow> build" where
  "at_version_proto inp h = setup_dialer (at_tls_options inp h)"

definition at_audit_worker :: "inputs \<Rightarrow> event list \<Rightarrow> build" where
  "at_audit_worker inp h =
     (let s = at_version_proto inp h;
          s = setup_contact_service s;
          s = setup_overlay s;
          s = setup_live_accounting inp s;
          s = setup_accounting_project_usage s;
          s = setup_orders s;
          s = setup_metainfo inp s;
          s = setup_datarepair s
      in setup_audit_worker inp s)"

definition constructed :: "inputs \<Rightarrow> Config \<Rightarrow> event list \<Rightarrow> build" where
  "constructed inp config h =
     (let s = at_audit_worker inp h;
          s = setup_audit_chore s;
          s = setup_garbage_collection s;
          s = setup_db_cleanup s;
          s = setup_accounting s;
          s = setup_payments config s;
          s = setup_graceful_exit config s;
          s = setup_metrics s
      in setup_downtime_tracking s)"

text \<open>
  The first non-nil error among the closures of the subsystems \<open>xs\<close>, taken in the
  order in which they return; each closure up to that one returns while the context
  is not canceled.
\<close>

fun first_error :: "env \<Rightarrow> obj list \<Rightarrow> nat list \<Rightarrow> error option" where
  "first_error env xs [] = None"
| "first_error env xs (i # order) =
     (case task env (xs ! i) False of
        None \<Rightarrow> first_error env xs order
      | Some e \<Rightarrow> Some e)"

text \<open>
  Subsystems of which the audit worker's \<^verbatim>\<open>Run\<close> fails, and the others return nil until
  the context is canceled and \<^verbatim>\<open>context.Canceled\<close> from then on.
\<close>

definition worker_fails :: env where
  "worker_fails = \<lparr>
     close_result = (\<lambda>x h. None),
     run_result = (\<lambda>x canceled.
        if ctor_of x = audit_NewWorker then Some (Failure ''worker failed'')
        else if canceled then Some Canceled else None) \<rparr>"

text \<open>The line \<^verbatim>\<open>New\<close> logs first, unless the version info is zero.\<close>

definition version_line :: "inputs \<Rightarrow> event list" where
  "version_line inp =
     (if \<not> versionInfo_IsZero inp
      then [LogLine [] Debug ''Binary Version: %s with CommitHash %s, built at %s as Release %v'']
      else [])"

text \<open>
  Inputs for concrete runs: every step of \<^verbatim>\<open>New\<close> succeeds, graceful exit is enabled and
  the payment provider is \<^verbatim>\<open>"stripecoinpayments"\<close>. The subsystems of \<open>strict_env\<close> return
  an error from \<^verbatim>\<open>Close\<close> when they were closed before, and \<^verbatim>\<open>context.Canceled\<close> from
  \<^verbatim>\<open>Run\<close>, as they do when the caller cancels the context.
\<close>

definition all_good :: inputs where
  "all_good = \<lparr>
     versionInfo_IsZero = False, tlsopts_NewOptions_err = None, versionInfo_Proto_err = None,
     audit_NewWorker_ret = (True, None), pointerDB = Some (Obj caller_pointerDB []),
     liveAccounting = Some (Obj caller_liveAccounting []) \<rparr>"

definition full_config :: Config where
  "full_config = \<lparr> GracefulExit_Enabled = True, Payments_Provider = ''stripecoinpayments'' \<rparr>"

definition strict_env :: env where
  "strict_env = \<lparr>
     close_result = (\<lambda>x h. if CloseCall x \<in> set h then Some (Failure ''already closed'') else None),
     run_result = (\<lambda>x canceled. Some Canceled) \<rparr>"

section \<open>Basic facts\<close>

subsection \<open>Close as one pass over the closing sequence\<close>

lemma non_nil_append: "non_nil (xs @ ys) = non_nil xs @ non_nil ys"
  by (induction xs rule: non_nil.induct) simp_all

lemma close_results_append:
  "close_results env (xs @ ys) h =
     close_results env xs h @ close_results env ys (h @ map CloseCall xs)"
  by (induction xs arbitrary: h) simp_all

lemma length_close_results: "length (close_results env xs h) = length xs"
  by (induction xs arbitrary: h) simp_all

lemma closed_objs_append: "closed_objs (h @ h') = closed_objs h @ closed_objs h'"
  by (induction h rule: closed_objs.induct) simp_all

lemma closed_objs_CloseCall: "closed_objs (map CloseCall xs) = xs"
  by (induction xs) simp_all

lemma built_objs_append: "built_objs (h @ h') = built_objs h @ built_objs h'"
  by (induction h rule: built_objs.induct) simp_all

lemma built_objs_CloseCall: "built_objs (map CloseCall xs) = []"
  by (induction xs) simp_all

lemma Group_Err_None: "Group_Err errlist = None \<longleftrightarrow> errlist = []"
  by (simp add: Group_Err_def split: list.split)

lemma non_nil_empty: "non_nil rs = [] \<longleftrightarrow> list_all (\<lambda>r. r = None) rs"
  by (induction rs rule: non_nil.induct) simp_all

lemma close_if_set_step:
  "close_if_set env slot
     (Return (non_nil (close_results env xs h), h @ map CloseCall xs)) =
   Return (non_nil (close_results env (xs @ non_nil [slot]) h),
           h @ map CloseCall (xs @ non_nil [slot]))"
  by (cases slot)
     (simp_all add: close_if_set_def invoke_Close_def Group_Add_def close_results_append
        non_nil_append split: option.split)

lemma Close_eq:
  "Close env peer h =
     Return (Group_Err (non_nil (close_results env (non_nil (closing_sequence peer)) h)),
             h @ map CloseCall (non_nil (closing_sequence peer)))"
proof -
  have start: "Return (([]::Group), h) =
      Return (non_nil (close_results env [] h), h @ map CloseCall [])"
    by simp
  have seq: "non_nil (closing_sequence peer) =
      [] @ non_nil [DowntimeTracking_DetectionChore peer] @ non_nil [Metrics_Chore peer]
       @ non_nil [GracefulExit_Chore peer] @ non_nil [Audit_Chore peer]
       @ non_nil [Audit_Worker peer] @ non_nil [Accounting_Rollup peer]
       @ non_nil [Accounting_Tally peer] @ non_nil [DBCleanup_Chore peer]
       @ non_nil [Repair_Repairer peer] @ non_nil [Repair_Checker peer]
       @ non_nil [Overlay_Service peer] @ non_nil [Contact_Service peer]
       @ non_nil [Metainfo_Loop peer]"
    unfolding closing_sequence_def
    by (simp only: non_nil_append [symmetric] append.simps)
  show ?thesis
    unfolding Close_def Let_def start close_if_set_step seq
    by (simp only: outcome.case prod.case append_assoc)
qed

text \<open>
  C7. \<^verbatim>\<open>Close\<close> returns, and the calls it adds to the history are the \<^verbatim>\<open>Close\<close> calls of
  the populated slots among: downtime detection chore, metrics chore, graceful-exit
  chore, audit chore, audit worker, accounting rollup, accounting tally, db-cleanup
  chore, repairer, repair checker, overlay service, contact service, metainfo loop, in
  exactly this sequence.
\<close>

theorem Close_order:
  "\<exists>e. Close env peer h =
     Return (e, h @ map CloseCall (non_nil
       [DowntimeTracking_DetectionChore peer, Metrics_Chore peer, GracefulExit_Chore peer,
        Audit_Chore peer, Audit_Worker peer, Accounting_Rollup peer, Accounting_Tally peer,
        DBCleanup_Chore peer, Repair_Repairer peer, Repair_Checker peer,
        Overlay_Service peer, Contact_Service peer, Metainfo_Loop peer]))"
  using Close_eq [of env peer h] by (simp only: closing_sequence_def) blast

subsection \<open>The blocks of New, applied to a supervisor and a history\<close>

lemma version_control_stage:
  "setup_version_control inp (peer, h) =
     (peer\<lparr>Version := Some (Obj version_checker_NewService [])\<rparr>,
      h @ version_line inp
        @ [Built (Obj version_checker_NewService [])])"
  by (simp add: setup_version_control_def version_line_def Let_def)

lemma dialer_stage:
  "setup_dialer (peer, h) =
     (peer\<lparr>Dialer := Some (Obj rpc_NewDefaultDialer [])\<rparr>,
      h @ [Built (Obj rpc_NewDefaultDialer [])])"
  by (simp add: setup_dialer_def Let_def)

lemma contact_service_stage:
  "setup_contact_service (peer, h) =
     (peer\<lparr>Contact_Service :=
        Some (Obj contact_NewService [Overlay_Service peer, Dialer peer])\<rparr>,
      h @ [Built (Obj contact_NewService [Overlay_Service peer, Dialer peer])])"
  by (simp add: setup_contact_service_def Let_def)

lemma overlay_stage:
  "setup_overlay (peer, h) =
     (peer\<lparr>Overlay_DB := Some (Obj overlay_NewCombinedCache []),
           Overlay_Service :=
             Some (Obj overlay_NewService [Some (Obj overlay_NewCombinedCache [])])\<rparr>,
      h @ [Built (Obj overlay_NewCombinedCache []),
           Built (Obj overlay_NewService [Some (Obj overlay_NewCombinedCache [])])])"
  by (simp add: setup_overlay_def Let_def)

lemma live_accounting_stage:
  "setup_live_accounting inp (peer, h) =
     (peer\<lparr>LiveAccounting_Cache := liveAccounting inp\<rparr>, h)"
  by (simp add: setup_live_accounting_def)

lemma project_usage_stage:
  "setup_accounting_project_usage (peer, h) =
     (peer\<lparr>Accounting_ProjectUsage :=
        Some (Obj accounting_NewService [LiveAccounting_Cache peer])\<rparr>,
      h @ [Built (Obj accounting_NewService [LiveAccounting_Cache peer])])"
  by (simp add: setup_accounting_project_usage_def Let_def)

lemma orders_stage:
  "setup_orders (peer, h) =
     (peer\<lparr>Orders_Service := Some (Obj orders_NewService [Overlay_Service peer])\<rparr>,
      h @ [Built (Obj orders_NewService [Overlay_Service peer])])"
  by (simp add: setup_orders_def Let_def)

lemma metainfo_stage:
  "setup_metainfo inp (peer, h) =
     (peer\<lparr>Metainfo_Database := pointerDB inp,
           Metainfo_Service := Some (Obj metainfo_NewService [pointerDB inp]),
           Metainfo_Loop := Some (Obj metainfo_NewLoop [pointerDB inp])\<rparr>,
      h @ [Built (Obj metainfo_NewService [pointerDB inp]),
           Built (Obj metainfo_NewLoop [pointerDB inp])])"
  by (simp add: setup_metainfo_def Let_def)

lemma datarepair_stage:
  "setup_datarepair (peer, h) =
     (peer\<lparr>Repair_Checker := Some (Obj checker_NewChecker
              [Metainfo_Service peer, Metainfo_Loop peer, Overlay_Service peer]),
           Repair_Repairer := Some (Obj repairer_NewService
              [Some (Obj repairer_NewSegmentRepairer
                 [Metainfo_Service peer, Orders_Service peer, Overlay_Service peer,
                  Dialer peer])])\<rparr>,
      h @ [Built (Obj checker_NewChecker
              [Metainfo_Service peer, Metainfo_Loop peer, Overlay_Service peer]),
           Built (Obj repairer_NewSegmentRepairer
              [Metainfo_Service peer, Orders_Service peer, Overlay_Service peer, Dialer peer]),
           Built (Obj repairer_NewService
              [Some (Obj repairer_NewSegmentRepairer
                 [Metainfo_Service peer, Orders_Service peer, Overlay_Service peer,
                  Dialer peer])])])"
  by (simp add: setup_datarepair_def Let_def)

lemma audit_worker_stage:
  "setup_audit_worker inp (peer, h) =
     (peer\<lparr>Audit_Queue := Some (Obj audit_Queue []),
           Audit_Verifier := Some (Obj audit_NewVerifier
              [Metainfo_Service peer, Dialer peer, Overlay_Service peer, Orders_Service peer]),
           Audit_Reporter := Some (Obj audit_NewReporter [Overlay_Service peer]),
           Audit_Worker :=
             (if fst (audit_NewWorker_ret inp)
              then Some (Obj audit_NewWorker
                 [Some (Obj audit_Queue []),
                  Some (Obj audit_NewVerifier
                    [Metainfo_Service peer, Dialer peer, Overlay_Service peer,
                     Orders_Service peer]),
                  Some (Obj audit_NewReporter [Overlay_Service peer])])
              else None)\<rparr>,
      h @ [Built (Obj audit_Queue []),
           Built (Obj audit_NewVerifier
              [Metainfo_Service peer, Dialer peer, Overlay_Service peer, Orders_Service peer]),
           Built (Obj audit_NewReporter [Overlay_Service peer])]
        @ (if fst (audit_NewWorker_ret inp)
           then [Built (Obj audit_NewWorker
                 [Some (Obj audit_Queue []),
                  Some (Obj audit_NewVerifier
                    [Metainfo_Service peer, Dialer peer, Overlay_Service peer,
                     Orders_Service peer]),
                  Some (Obj audit_NewReporter [Overlay_Service peer])])]
           else []))"
  by (simp add: setup_audit_worker_def Let_def)

lemma audit_chore_stage:
  "setup_audit_chore (peer, h) =
     (peer\<lparr>Audit_Chore := Some (Obj audit_NewChore [Audit_Queue peer, Metainfo_Loop peer])\<rparr>,
      h @ [Built (Obj audit_NewChore [Audit_Queue peer, Metainfo_Loop peer])])"
  by (simp add: setup_audit_chore_def Let_def)

lemma garbage_collection_stage:
  "setup_garbage_collection (peer, h) =
     (peer\<lparr>GarbageCollection_Service := Some (Obj gc_NewService
        [Dialer peer, Overlay_DB peer, Metainfo_Loop peer])\<rparr>,
      h @ [Built (Obj gc_NewService [Dialer peer, Overlay_DB peer, Metainfo_Loop peer])])"
  by (simp add: setup_garbage_collection_def Let_def)

lemma db_cleanup_stage:
  "setup_db_cleanup (peer, h) =
     (peer\<lparr>DBCleanup_Chore := Some (Obj dbcleanup_NewChore [])\<rparr>,
      h @ [Built (Obj dbcleanup_NewChore [])])"
  by (simp add: setup_db_cleanup_def Let_def)

lemma accounting_stage:
  "setup_accounting (peer, h) =
     (peer\<lparr>Accounting_Tally := Some (Obj tally_New
              [LiveAccounting_Cache peer, Metainfo_Loop peer]),
           Accounting_Rollup := Some (Obj rollup_New [])\<rparr>,
      h @ [Built (Obj tally_New [LiveAccounting_Cache peer, Metainfo_Loop peer]),
           Built (Obj rollup_New [])])"
  by (simp add: setup_accounting_def Let_def)

lemma payments_stage:
  "setup_payments config (peer, h) =
     (peer\<lparr>Payments_Accounts :=
             (if Payments_Provider config = ''stripecoinpayments''
              then Some (Obj stripecoinpayments_Service_Accounts
                           [Some (Obj stripecoinpayments_NewService [])])
              else Some (Obj mockpayments_Accounts [])),
           Payments_Chore :=
             (if Payments_Provider config = ''stripecoinpayments''
              then Some (Obj stripecoinpayments_NewChore
                           [Some (Obj stripecoinpayments_NewService [])])
              else Payments_Chore peer)\<rparr>,
      h @ (if Payments_Provider config = ''stripecoinpayments''
           then [Built (Obj stripecoinpayments_NewService []),
                 Built (Obj stripecoinpayments_Service_Accounts
                          [Some (Obj stripecoinpayments_NewService [])]),
                 Built (Obj stripecoinpayments_NewChore
                          [Some (Obj stripecoinpayments_NewService [])])]
           else [Built (Obj mockpayments_Accounts [])]))"
  by (simp add: setup_payments_def Let_def)

lemma graceful_exit_stage:
  "setup_graceful_exit config (peer, h) =
     (peer\<lparr>GracefulExit_Chore :=
             (if GracefulExit_Enabled config
              then Some (Obj gracefulexit_NewChore [Overlay_DB peer, Metainfo_Loop peer])
              else GracefulExit_Chore peer)\<rparr>,
      h @ (if GracefulExit_Enabled config
           then [Built (Obj gracefulexit_NewChore [Overlay_DB peer, Metainfo_Loop peer])]
           else [LogLine ''gracefulexit'' Info ''disabled'']))"
  by (simp add: setup_graceful_exit_def Let_def)

lemma metrics_stage:
  "setup_metrics (peer, h) =
     (peer\<lparr>Metrics_Chore := Some (Obj metrics_NewChore [Metainfo_Loop peer])\<rparr>,
      h @ [Built (Obj metrics_NewChore [Metainfo_Loop peer])])"
  by (simp add: setup_metrics_def Let_def)

lemma downtime_tracking_stage:
  "setup_downtime_tracking (peer, h) =
     (peer\<lparr>DowntimeTracking_Service := Some (Obj downtime_NewService
              [Overlay_Service peer, Contact_Service peer]),
           DowntimeTracking_DetectionChore := Some (Obj downtime_NewDetectionChore
              [Overlay_Service peer,
               Some (Obj downtime_NewService [Overlay_Service peer, Contact_Service peer])])\<rparr>,
      h @ [Built (Obj downtime_NewService [Overlay_Service peer, Contact_Service peer]),
           Built (Obj downtime_NewDetectionChore
              [Overlay_Service peer,
               Some (Obj downtime_NewService [Overlay_Service peer, Contact_Service peer])])])"
  by (simp add: setup_downtime_tracking_def Let_def)

lemma built_objs_version_line: "built_objs (version_line inp) = []"
  by (simp add: version_line_def)

lemma closed_objs_version_line: "closed_objs (version_line inp) = []"
  by (simp add: version_line_def)

lemmas stages = version_control_stage dialer_stage contact_service_stage overlay_stage
  live_accounting_stage project_usage_stage orders_stage metainfo_stage datarepair_stage
  audit_worker_stage audit_chore_stage garbage_collection_stage db_cleanup_stage
  accounting_stage payments_stage graceful_exit_stage metrics_stage downtime_tracking_stage

lemmas places = at_tls_options_def at_version_proto_def at_audit_worker_def constructed_def
  Core_literal_def Let_def

subsection \<open>New along its four ways out\<close>

lemma New_tls_failure:
  "tlsopts_NewOptions_err inp = Some err \<Longrightarrow>
   New env inp config h = return_failure env err (at_tls_options inp h)"
  by (simp add: New_def at_tls_options_def Let_def)

lemma New_proto_failure:
  "tlsopts_NewOptions_err inp = None \<Longrightarrow> versionInfo_Proto_err inp = Some err \<Longrightarrow>
   New env inp config h = return_failure env err (at_version_proto inp h)"
  by (simp add: New_def at_tls_options_def at_version_proto_def Let_def)

lemma New_worker_failure:
  "tlsopts_NewOptions_err inp = None \<Longrightarrow> versionInfo_Proto_err inp = None \<Longrightarrow>
   snd (audit_NewWorker_ret inp) = Some err \<Longrightarrow>
   New env inp config h = return_failure env err (at_audit_worker inp h)"
  by (simp add: New_def at_tls_options_def at_version_proto_def at_audit_worker_def Let_def)

lemma New_success:
  "tlsopts_NewOptions_err inp = None \<Longrightarrow> versionInfo_Proto_err inp = None \<Longrightarrow>
   snd (audit_NewWorker_ret inp) = None \<Longrightarrow>
   New env inp config h =
     Return ((Some (fst (constructed inp config h)), None), snd (constructed inp config h))"
  by (simp add: New_def at_tls_options_def at_version_proto_def at_audit_worker_def
      constructed_def Let_def)

lemma return_failure_eq:
  "return_failure env err (peer, h) =
     Return ((None, Combine (Some err)
                (Group_Err (non_nil (close_results env (non_nil (closing_sequence peer)) h)))),
             h @ map CloseCall (non_nil (closing_sequence peer)))"
  by (simp add: return_failure_def Close_eq)

subsection \<open>What has been built at each place\<close>

lemma at_tls_options_eq:
  "at_tls_options inp h =
     (Core_literal\<lparr>Version := Some (Obj version_checker_NewService [])\<rparr>,
      h @ version_line inp
        @ [Built (Obj version_checker_NewService []),
           LogLine [] Debug ''Starting listener and server''])"
  by (simp add: at_tls_options_def Let_def stages)

lemma at_version_proto_eq:
  "at_version_proto inp h =
     (Core_literal\<lparr>Version := Some (Obj version_checker_NewService []),
                    Dialer := Some (Obj rpc_NewDefaultDialer [])\<rparr>,
      h @ version_line inp
        @ [Built (Obj version_checker_NewService []),
           LogLine [] Debug ''Starting listener and server'',
           Built (Obj rpc_NewDefaultDialer [])])"
  by (simp add: at_version_proto_def at_tls_options_eq stages)

lemma closing_at_tls_options: "non_nil (closing_sequence (fst (at_tls_options inp h))) = []"
  by (simp add: at_tls_options_eq closing_sequence_def Core_literal_def)

lemma closing_at_version_proto: "non_nil (closing_sequence (fst (at_version_proto inp h))) = []"
  by (simp add: at_version_proto_eq closing_sequence_def Core_literal_def)

lemma at_audit_worker_history:
  "snd (at_audit_worker inp h) = h @ snd (at_audit_worker inp [])"
  by (simp add: at_audit_worker_def at_version_proto_eq Let_def stages Core_literal_def)

lemma at_audit_worker_peer:
  "fst (at_audit_worker inp h) = fst (at_audit_worker inp [])"
  by (simp add: at_audit_worker_def at_version_proto_eq Let_def stages Core_literal_def)

lemma closing_at_audit_worker:
  "map ctor_of (non_nil (closing_sequence (fst (at_audit_worker inp h)))) =
     (if fst (audit_NewWorker_ret inp) then [audit_NewWorker] else [])
     @ [repairer_NewService, checker_NewChecker, overlay_NewService, contact_NewService,
        metainfo_NewLoop]"
  by (simp add: at_audit_worker_def at_version_proto_eq Let_def stages Core_literal_def
      closing_sequence_def)

lemma built_at_audit_worker:
  "map ctor_of (built_objs (snd (at_audit_worker inp []))) =
     [version_checker_NewService, rpc_NewDefaultDialer, contact_NewService,
      overlay_NewCombinedCache, overlay_NewService, accounting_NewService, orders_NewService,
      metainfo_NewService, metainfo_NewLoop, checker_NewChecker, repairer_NewSegmentRepairer,
      repairer_NewService, audit_Queue, audit_NewVerifier, audit_NewReporter]
     @ (if fst (audit_NewWorker_ret inp) then [audit_NewWorker] else [])"
  by (simp add: at_audit_worker_def at_version_proto_eq Let_def stages Core_literal_def
      built_objs_append built_objs_version_line)

lemma closed_at_audit_worker_built:
  "set (non_nil (closing_sequence (fst (at_audit_worker inp h))))
     \<subseteq> set (built_objs (snd (at_audit_worker inp [])))"
  by (simp add: at_audit_worker_def at_version_proto_eq Let_def stages Core_literal_def
      closing_sequence_def built_objs_append built_objs_version_line)

lemma closing_at_audit_worker_distinct:
  "distinct (non_nil (closing_sequence (fst (at_audit_worker inp h))))"
  by (simp add: at_audit_worker_def at_version_proto_eq Let_def stages Core_literal_def
      closing_sequence_def)

subsection \<open>The supervisor New returns\<close>

lemma constructed_peer: "fst (constructed inp config h) = fst (constructed inp config [])"
  by (simp add: constructed_def at_audit_worker_def at_version_proto_eq Let_def stages
      Core_literal_def)

lemma constructed_history:
  "snd (constructed inp config h) = h @ snd (constructed inp config [])"
  by (simp add: constructed_def at_audit_worker_def at_version_proto_eq Let_def stages
      Core_literal_def)

lemma constructed_closing:
  "map (map_option ctor_of) (closing_sequence (fst (constructed inp config h))) =
     [Some downtime_NewDetectionChore, Some metrics_NewChore,
      if GracefulExit_Enabled config then Some gracefulexit_NewChore else None,
      Some audit_NewChore,
      if fst (audit_NewWorker_ret inp) then Some audit_NewWorker else None,
      Some rollup_New, Some tally_New, Some dbcleanup_NewChore, Some repairer_NewService,
      Some checker_NewChecker, Some overlay_NewService, Some contact_NewService,
      Some metainfo_NewLoop]"
  by (simp add: constructed_def at_audit_worker_def at_version_proto_eq Let_def stages
      Core_literal_def closing_sequence_def)

lemma constructed_launched:
  "map (map_option ctor_of) (launched (fst (constructed inp config h))) =
     [Some metainfo_NewLoop, Some version_checker_NewService, Some checker_NewChecker,
      Some repairer_NewService, Some dbcleanup_NewChore, Some tally_New, Some rollup_New,
      if fst (audit_NewWorker_ret inp) then Some audit_NewWorker else None,
      Some audit_NewChore, Some gc_NewService]
     @ (if GracefulExit_Enabled config then [Some gracefulexit_NewChore] else [])
     @ [Some metrics_NewChore]
     @ (if Payments_Provider config = ''stripecoinpayments''
        then [Some stripecoinpayments_NewChore] else [])
     @ [Some downtime_NewDetectionChore]"
  by (simp add: constructed_def at_audit_worker_def at_version_proto_eq Let_def stages
      Core_literal_def launched_def)

lemma constructed_not_closed:
  "map (map_option ctor_of) (not_closed (fst (constructed inp config h))) =
     [Some version_checker_NewService, Some orders_NewService, Some metainfo_NewService,
      Some gc_NewService, Some accounting_NewService,
      if Payments_Provider config = ''stripecoinpayments''
      then Some stripecoinpayments_NewChore else None,
      Some downtime_NewService]"
  by (simp add: constructed_def at_audit_worker_def at_version_proto_eq Let_def stages
      Core_literal_def not_closed_def)

lemma constructed_contact_service:
  "Contact_Service (fst (constructed inp config h)) =
     Some (Obj contact_NewService [None, Some (Obj rpc_NewDefaultDialer [])])"
  by (simp add: constructed_def at_audit_worker_def at_version_proto_eq Let_def stages
      Core_literal_def)

lemma constructed_overlay_service:
  "Overlay_Service (fst (constructed inp config h)) =
     Some (Obj overlay_NewService [Some (Obj overlay_NewCombinedCache [])])"
  by (simp add: constructed_def at_audit_worker_def at_version_proto_eq Let_def stages
      Core_literal_def)

lemma constructed_payments:
  "Payments_Accounts (fst (constructed inp config h)) =
     (if Payments_Provider config = ''stripecoinpayments''
      then Some (Obj stripecoinpayments_Service_Accounts
                   [Some (Obj stripecoinpayments_NewService [])])
      else Some (Obj mockpayments_Accounts []))
   \<and> Payments_Chore (fst (constructed inp config h)) =
     (if Payments_Provider config = ''stripecoinpayments''
      then Some (Obj stripecoinpayments_NewChore [Some (Obj stripecoinpayments_NewService [])])
      else None)"
  by (simp add: constructed_def at_audit_worker_def at_version_proto_eq Let_def stages
      Core_literal_def)

lemma constructed_graceful_exit:
  "GracefulExit_Chore (fst (constructed inp config h)) =
     (if GracefulExit_Enabled config
      then Some (Obj gracefulexit_NewChore
                   [Some (Obj overlay_NewCombinedCache []),
                    Some (Obj metainfo_NewLoop [pointerDB inp])])
      else None)"
  by (simp add: constructed_def at_audit_worker_def at_version_proto_eq Let_def stages
      Core_literal_def)

subsection \<open>Run\<close>

lemma closure_returned_None: "closure_returned g None = g"
  by (simp add: closure_returned_def)

lemma returns_benign:
  "\<forall>i\<in>set order. \<exists>x. ts ! i = Some x \<and> (\<forall>c. task env x c = None) \<Longrightarrow>
   returns env ts order g = Return g"
proof (induction order arbitrary: g)
  case Nil
  show ?case by simp
next
  case (Cons i order)
  from Cons.prems obtain x where x: "ts ! i = Some x" "\<forall>c. task env x c = None"
    by auto
  from Cons.prems have rest: "\<forall>j\<in>set order. \<exists>y. ts ! j = Some y \<and> (\<forall>c. task env y c = None)"
    by simp
  show ?case
    using x Cons.IH [OF rest] by (simp add: closure_returned_None)
qed

lemma order_covers:
  assumes "sort order = [0..<n]"
  shows "set order = {0..<n}"
proof -
  have "set order = set (sort order)" by simp
  with assms show ?thesis by simp
qed

lemma task_not_Canceled: "task env x c \<noteq> Some Canceled"
  by (simp add: task_def IgnoreCanceled_def)

lemma closure_returned_kept:
  "kept g \<noteq> Some Canceled \<Longrightarrow> e \<noteq> Some Canceled \<Longrightarrow>
   kept (closure_returned g e) \<noteq> Some Canceled"
  by (cases e) (simp_all add: closure_returned_def)

lemma returns_kept:
  "returns env ts order g = Return g' \<Longrightarrow> kept g \<noteq> Some Canceled \<Longrightarrow>
   kept g' \<noteq> Some Canceled"
proof (induction order arbitrary: g)
  case Nil
  then show ?case by simp
next
  case (Cons i order)
  show ?case
  proof (cases "ts ! i")
    case None
    with Cons.prems show ?thesis by simp
  next
    case (Some x)
    with Cons.prems have
      "returns env ts order (closure_returned g (task env x (ctx_canceled g))) = Return g'"
      by simp
    moreover have "kept (closure_returned g (task env x (ctx_canceled g))) \<noteq> Some Canceled"
      using Cons.prems(2) task_not_Canceled by (rule closure_returned_kept)
    ultimately show ?thesis by (rule Cons.IH)
  qed
qed

lemma Run_not_Canceled: "Run env order peer \<noteq> Some (Return (Some Canceled))"
proof (cases "returns env (launched peer) order \<lparr>kept = None, ctx_canceled = False\<rparr>")
  case Panic
  then show ?thesis by (simp add: Run_def Let_def)
next
  case (Return g')
  then have "kept g' \<noteq> Some Canceled"
    by (rule returns_kept) simp
  with Return show ?thesis by (simp add: Run_def Let_def)
qed

subsection \<open>What Run returns\<close>

lemma all_populated: "None \<notin> set ts \<Longrightarrow> ts = map Some (non_nil ts)"
  by (induction ts rule: non_nil.induct) simp_all

lemma returns_after_error:
  "None \<notin> set ts \<Longrightarrow> set order \<subseteq> {0..<length ts} \<Longrightarrow> kept g \<noteq> None \<Longrightarrow>
   returns env ts order g = Return g"
proof (induction order)
  case Nil
  show ?case by simp
next
  case (Cons i order)
  from Cons.prems have "ts ! i \<in> set ts" by simp
  with Cons.prems(1) obtain x where x: "ts ! i = Some x"
    by (cases "ts ! i") auto
  from Cons.prems(3) have same: "closure_returned g (task env x (ctx_canceled g)) = g"
    by (auto simp: closure_returned_def split: option.split)
  from Cons.prems have "returns env ts order g = Return g"
    by (intro Cons.IH) simp_all
  with x same show ?case by simp
qed

lemma returns_first_error:
  assumes "None \<notin> set ts" and "set order \<subseteq> {0..<length ts}"
  shows "returns env ts order \<lparr>kept = None, ctx_canceled = False\<rparr> =
     Return \<lparr>kept = first_error env (non_nil ts) order,
              ctx_canceled = (first_error env (non_nil ts) order \<noteq> None)\<rparr>"
  using assms(2)
proof (induction order)
  case Nil
  show ?case by simp
next
  case (Cons i order)
  from Cons.prems have i: "i < length ts" by simp
  from assms(1) have ts: "ts = map Some (non_nil ts)" by (rule all_populated)
  then have len: "length (non_nil ts) = length ts"
    by (metis length_map)
  from ts i len have x: "ts ! i = Some (non_nil ts ! i)"
    by (metis nth_map)
  from Cons.prems have rest: "set order \<subseteq> {0..<length ts}" by simp
  show ?case
  proof (cases "task env (non_nil ts ! i) False")
    case None
    with x Cons.IH [OF rest] show ?thesis
      by (simp add: closure_returned_def)
  next
    case (Some e)
    have "returns env ts order \<lparr>kept = Some e, ctx_canceled = True\<rparr>
        = Return \<lparr>kept = Some e, ctx_canceled = True\<rparr>"
      using assms(1) rest by (rule returns_after_error) simp
    with x Some show ?thesis
      by (simp add: closure_returned_def)
  qed
qed

lemma Run_returns_iff:
  "Run env order peer \<noteq> None \<longleftrightarrow> sort order = [0..<length (launched peer)]"
  by (simp add: Run_def Let_def)

lemma Run_eq:
  assumes "None \<notin> set (launched peer)"
  shows "Run env order peer =
     (if sort order = [0..<length (launched peer)]
      then Some (Return (first_error env (non_nil (launched peer)) order))
      else None)"
proof (cases "sort order = [0..<length (launched peer)]")
  case True
  then have "set order \<subseteq> {0..<length (launched peer)}"
    by (simp add: order_covers)
  with assms have "returns env (launched peer) order \<lparr>kept = None, ctx_canceled = False\<rparr> =
     Return \<lparr>kept = first_error env (non_nil (launched peer)) order,
              ctx_canceled = (first_error env (non_nil (launched peer)) order \<noteq> None)\<rparr>"
    by (rule returns_first_error)
  with True show ?thesis
    by (simp add: Run_def Let_def)
next
  case False
  then show ?thesis by (simp add: Run_def Let_def)
qed

lemma launched_receivers:
  "non_nil (launched peer) =
     non_nil [Metainfo_Loop peer, Version peer, Repair_Checker peer, Repair_Repairer peer,
       DBCleanup_Chore peer, Accounting_Tally peer, Accounting_Rollup peer,
       Audit_Worker peer, Audit_Chore peer, GarbageCollection_Service peer,
       GracefulExit_Chore peer, Metrics_Chore peer, Payments_Chore peer,
       DowntimeTracking_DetectionChore peer]"
proof -
  have split: "[Metainfo_Loop peer, Version peer, Repair_Checker peer, Repair_Repairer peer,
       DBCleanup_Chore peer, Accounting_Tally peer, Accounting_Rollup peer,
       Audit_Worker peer, Audit_Chore peer, GarbageCollection_Service peer,
       GracefulExit_Chore peer, Metrics_Chore peer, Payments_Chore peer,
       DowntimeTracking_DetectionChore peer] =
     [Metainfo_Loop peer, Version peer, Repair_Checker peer, Repair_Repairer peer,
       DBCleanup_Chore peer, Accounting_Tally peer, Accounting_Rollup peer,
       Audit_Worker peer, Audit_Chore peer, GarbageCollection_Service peer]
     @ [GracefulExit_Chore peer] @ [Metrics_Chore peer] @ [Payments_Chore peer]
     @ [DowntimeTracking_DetectionChore peer]"
    by simp
  have opt: "\<And>slot::obj option. non_nil (if slot \<noteq> None then [slot] else []) = non_nil [slot]"
    by simp
  show ?thesis
    unfolding split launched_def by (simp only: non_nil_append opt)
qed

lemma length_launched:
  "length (launched peer) =
     12 + (if GracefulExit_Chore peer \<noteq> None then 1 else 0)
        + (if Payments_Chore peer \<noteq> None then 1 else 0)"
  by (simp add: launched_def)

lemma returns_nil_slot:
  "i \<in> set order \<Longrightarrow> ts ! i = None \<Longrightarrow> returns env ts order g = Panic"
proof (induction order arbitrary: g)
  case Nil
  then show ?case by simp
next
  case (Cons j order)
  show ?case
  proof (cases "ts ! j")
    case None
    then show ?thesis by simp
  next
    case (Some x)
    with Cons.prems have "i \<in> set order" by auto
    then have "returns env ts order (closure_returned g (task env x (ctx_canceled g))) = Panic"
      using Cons.prems(2) by (rule Cons.IH)
    with Some show ?thesis by simp
  qed
qed

lemma Run_nil_slot:
  assumes "None \<in> set (launched peer)" and "sort order = [0..<length (launched peer)]"
  shows "Run env order peer = Some Panic"
proof -
  from assms(1) obtain i where i: "i < length (launched peer)" "launched peer ! i = None"
    by (metis in_set_conv_nth)
  from assms(2) have "set order = {0..<length (launched peer)}"
    by (rule order_covers)
  with i(1) have "i \<in> set order" by simp
  then have "returns env (launched peer) order \<lparr>kept = None, ctx_canceled = False\<rparr> = Panic"
    using i(2) by (rule returns_nil_slot)
  with assms(2) show ?thesis
    by (simp add: Run_def Let_def)
qed

lemma first_error_strict: "first_error strict_env xs order = None"
  by (induction order) (simp_all add: task_def strict_env_def IgnoreCanceled_def)

text \<open>
  C4. A closure whose subsystem's \<^verbatim>\<open>Run\<close> returns \<^verbatim>\<open>context.Canceled\<close> returns nil, so
  the group keeps no error for it and does not cancel the context on its account. If
  every launched subsystem's \<^verbatim>\<open>Run\<close> returns nil or \<^verbatim>\<open>context.Canceled\<close>, then \<^verbatim>\<open>Core.Run\<close>
  returns nil, in whatever order the closures return. And \<^verbatim>\<open>Core.Run\<close> never returns
  \<^verbatim>\<open>context.Canceled\<close>.
\<close>

theorem Run_ignores_canceled:
  "(run_result env x c = Some Canceled \<longrightarrow>
      task env x c = None \<and> closure_returned g (task env x c) = g)
   \<and> (sort order = [0..<length (launched peer)]
        \<and> (\<forall>slot\<in>set (launched peer). \<exists>y. slot = Some y
              \<and> (\<forall>c. run_result env y c = None \<or> run_result env y c = Some Canceled))
      \<longrightarrow> Run env order peer = Some (Return None))
   \<and> Run env order peer \<noteq> Some (Return (Some Canceled))"
  (is "?one \<and> ?all \<and> ?never")
proof (intro conjI)
  show ?one
    by (simp add: task_def IgnoreCanceled_def closure_returned_def)
next
  show ?never
    by (rule Run_not_Canceled)
next
  show ?all
  proof (rule impI)
    assume a: "sort order = [0..<length (launched peer)]
      \<and> (\<forall>slot\<in>set (launched peer). \<exists>y. slot = Some y
            \<and> (\<forall>c. run_result env y c = None \<or> run_result env y c = Some Canceled))"
    then have cover: "set order = {0..<length (launched peer)}"
      by (simp add: order_covers)
    have "\<forall>i\<in>set order. \<exists>y. launched peer ! i = Some y \<and> (\<forall>c. task env y c = None)"
    proof
      fix i assume "i \<in> set order"
      with cover have "launched peer ! i \<in> set (launched peer)" by simp
      with a obtain y where y: "launched peer ! i = Some y"
        "\<forall>c. run_result env y c = None \<or> run_result env y c = Some Canceled"
        by blast
      have "\<forall>c. task env y c = None"
      proof
        fix c
        from y(2) have "run_result env y c = None \<or> run_result env y c = Some Canceled" ..
        then show "task env y c = None"
          by (auto simp: task_def IgnoreCanceled_def)
      qed
      with y(1) show "\<exists>y. launched peer ! i = Some y \<and> (\<forall>c. task env y c = None)"
        by blast
    qed
    then have "returns env (launched peer) order \<lparr>kept = None, ctx_canceled = False\<rparr>
        = Return \<lparr>kept = None, ctx_canceled = False\<rparr>"
      by (rule returns_benign)
    with a show "Run env order peer = Some (Return None)"
      by (simp add: Run_def)
  qed
qed

lemmas evaluate = constructed_def at_audit_worker_def at_version_proto_eq Let_def stages
  Core_literal_def all_good_def full_config_def

lemma launched_full:
  "launched (fst (constructed all_good full_config [])) =
     map Some (non_nil (launched (fst (constructed all_good full_config []))))
   \<and> length (launched (fst (constructed all_good full_config []))) = 14"
  by (simp add: evaluate launched_def)

theorem Run_ignores_canceled_witness:
  "run_result strict_env (Obj metrics_NewChore [None]) False = Some Canceled
   \<and> task strict_env (Obj metrics_NewChore [None]) False = None
   \<and> Run strict_env [13, 12, 11, 10, 9, 8, 7, 6, 5, 4, 3, 2, 1, 0]
        (fst (constructed all_good full_config [])) = Some (Return None)"
proof -
  have len: "length (launched (fst (constructed all_good full_config []))) = 14"
    using launched_full by simp
  have order: "sort [13, 12, 11, 10, 9, 8, 7, 6, 5, 4, 3, 2, 1, 0::nat]
      = [0..<length (launched (fst (constructed all_good full_config [])))]"
    unfolding len by code_simp
  have slots: "\<forall>slot\<in>set (launched (fst (constructed all_good full_config []))).
      \<exists>y. slot = Some y
        \<and> (\<forall>c. run_result strict_env y c = None \<or> run_result strict_env y c = Some Canceled)"
  proof
    fix slot assume "slot \<in> set (launched (fst (constructed all_good full_config [])))"
    then have "slot \<in> set (map Some (non_nil (launched (fst (constructed all_good full_config [])))))"
      using launched_full by simp
    then show "\<exists>y. slot = Some y
        \<and> (\<forall>c. run_result strict_env y c = None \<or> run_result strict_env y c = Some Canceled)"
      by (auto simp: strict_env_def)
  qed
  have canceled: "run_result strict_env (Obj metrics_NewChore [None]) False = Some Canceled"
    by (simp add: strict_env_def)
  from Run_ignores_canceled [of strict_env "Obj metrics_NewChore [None]" False
      "\<lparr>kept = None, ctx_canceled = False\<rparr>" "[13, 12, 11, 10, 9, 8, 7, 6, 5, 4, 3, 2, 1, 0]"
      "fst (constructed all_good full_config [])"]
  show ?thesis using order slots canceled by blast
qed

text \<open>
  C5, as the code has it. \<^verbatim>\<open>Run\<close> launches one closure for each of the twelve slots
  metainfo loop, version service, repair checker, repairer, db-cleanup chore, tally,
  rollup, audit worker, audit chore, garbage-collection service, metrics chore and
  downtime detection chore, without a test of the slot (on a nil slot the closure calls
  \<^verbatim>\<open>Run\<close> through a nil pointer), and one each for the graceful-exit chore and the
  payments chore when their slot is populated; no closure for any other slot. \<^verbatim>\<open>Run\<close>
  returns only when every launched closure has returned. When the launched slots are
  populated, the shared context is canceled from the first non-nil error of a closure
  on, and \<^verbatim>\<open>Run\<close> returns that first error, or nil when there is none.
\<close>

theorem Run_first_failure:
  "non_nil (launched peer) =
     non_nil [Metainfo_Loop peer, Version peer, Repair_Checker peer, Repair_Repairer peer,
       DBCleanup_Chore peer, Accounting_Tally peer, Accounting_Rollup peer,
       Audit_Worker peer, Audit_Chore peer, GarbageCollection_Service peer,
       GracefulExit_Chore peer, Metrics_Chore peer, Payments_Chore peer,
       DowntimeTracking_DetectionChore peer]
   \<and> length (launched peer) =
       12 + (if GracefulExit_Chore peer \<noteq> None then 1 else 0)
          + (if Payments_Chore peer \<noteq> None then 1 else 0)
   \<and> (Run env order peer \<noteq> None \<longleftrightarrow> sort order = [0..<length (launched peer)])
   \<and> (None \<in> set (launched peer) \<and> sort order = [0..<length (launched peer)]
        \<longrightarrow> Run env order peer = Some Panic)
   \<and> (None \<notin> set (launched peer) \<and> sort order = [0..<length (launched peer)]
        \<longrightarrow> Run env order peer =
              Some (Return (first_error env (non_nil (launched peer)) order)))
   \<and> (None \<notin> set (launched peer) \<and> set part \<subseteq> {0..<length (launched peer)}
        \<longrightarrow> returns env (launched peer) part \<lparr>kept = None, ctx_canceled = False\<rparr> =
              Return \<lparr>kept = first_error env (non_nil (launched peer)) part,
                       ctx_canceled = (first_error env (non_nil (launched peer)) part \<noteq> None)\<rparr>)"
  (is "?receivers \<and> ?number \<and> ?join \<and> ?nil \<and> ?result \<and> ?cancel")
proof (intro conjI)
  show ?receivers by (rule launched_receivers)
next
  show ?number by (rule length_launched)
next
  show ?join by (rule Run_returns_iff)
next
  show ?nil by (simp add: Run_nil_slot)
next
  show ?result by (simp add: Run_eq)
next
  show ?cancel by (simp add: returns_first_error)
qed

text \<open>
  The supervisor \<^verbatim>\<open>New\<close> returns, with an audit worker whose \<^verbatim>\<open>Run\<close> fails. The worker's
  closure returns third: from then on the context is canceled, \<^verbatim>\<open>Run\<close> has not returned
  yet, and once the eleven other closures have returned too \<^verbatim>\<open>Run\<close> returns the worker's
  error.
\<close>

theorem Run_first_failure_witness:
  "length (launched (fst (constructed all_good full_config []))) = 14
   \<and> returns worker_fails (launched (fst (constructed all_good full_config []))) [0, 1, 7]
        \<lparr>kept = None, ctx_canceled = False\<rparr> =
       Return \<lparr>kept = Some (Failure ''worker failed''), ctx_canceled = True\<rparr>
   \<and> Run worker_fails [0, 1, 7] (fst (constructed all_good full_config [])) = None
   \<and> Run worker_fails [0, 1, 7, 13, 12, 11, 10, 9, 8, 6, 5, 4, 3, 2]
        (fst (constructed all_good full_config [])) =
       Some (Return (Some (Failure ''worker failed'')))"
proof -
  have len: "length (launched (fst (constructed all_good full_config []))) = 14"
    using launched_full by simp
  have populated: "None \<notin> set (launched (fst (constructed all_good full_config [])))"
    by (simp add: evaluate launched_def)
  have part: "set [0, 1, 7::nat]
      \<subseteq> {0..<length (launched (fst (constructed all_good full_config [])))}"
    unfolding len by simp
  have not_all: "sort [0, 1, 7::nat]
      \<noteq> [0..<length (launched (fst (constructed all_good full_config [])))]"
    unfolding len by code_simp
  have all: "sort [0, 1, 7, 13, 12, 11, 10, 9, 8, 6, 5, 4, 3, 2::nat]
      = [0..<length (launched (fst (constructed all_good full_config [])))]"
    unfolding len by code_simp
  have first: "first_error worker_fails
      (non_nil (launched (fst (constructed all_good full_config [])))) [0, 1, 7]
      = Some (Failure ''worker failed'')"
    by (simp add: evaluate launched_def worker_fails_def task_def IgnoreCanceled_def)
  have first_all: "first_error worker_fails
      (non_nil (launched (fst (constructed all_good full_config []))))
      [0, 1, 7, 13, 12, 11, 10, 9, 8, 6, 5, 4, 3, 2]
      = Some (Failure ''worker failed'')"
    by (simp add: evaluate launched_def worker_fails_def task_def IgnoreCanceled_def)
  note thm1 = Run_first_failure [where env = worker_fails
      and peer = "fst (constructed all_good full_config [])"
      and order = "[0, 1, 7]" and part = "[0, 1, 7]"]
  note thm2 = Run_first_failure [where env = worker_fails
      and peer = "fst (constructed all_good full_config [])"
      and order = "[0, 1, 7, 13, 12, 11, 10, 9, 8, 6, 5, 4, 3, 2]" and part = "[]"]
  note join = thm1 [THEN conjunct2, THEN conjunct2, THEN conjunct1]
  note cancel = thm1 [THEN conjunct2, THEN conjunct2, THEN conjunct2, THEN conjunct2,
      THEN conjunct2, rule_format, OF conjI, OF populated part]
  note result = thm2 [THEN conjunct2, THEN conjunct2, THEN conjunct2, THEN conjunct2,
      THEN conjunct1, rule_format, OF conjI, OF populated all]
  from join not_all have a: "Run worker_fails [0, 1, 7] (fst (constructed all_good full_config []))
      = None"
    by blast
  have b:
    "returns worker_fails (launched (fst (constructed all_good full_config []))) [0, 1, 7]
        \<lparr>kept = None, ctx_canceled = False\<rparr> =
       Return \<lparr>kept = Some (Failure ''worker failed''), ctx_canceled = True\<rparr>"
    unfolding cancel first by simp
  have c:
    "Run worker_fails [0, 1, 7, 13, 12, 11, 10, 9, 8, 6, 5, 4, 3, 2]
        (fst (constructed all_good full_config [])) =
       Some (Return (Some (Failure ''worker failed'')))"
    unfolding result first_all by (rule refl)
  from len a b c show ?thesis by blast
qed

text \<open>
  C5, as the claim states it, fails. The supervisor \<^verbatim>\<open>New\<close> returns has an overlay
  service, and \<^verbatim>\<open>Run\<close> launches no closure for it; and on a supervisor none of whose
  slots is populated \<^verbatim>\<open>Run\<close> still launches twelve closures, which call \<^verbatim>\<open>Run\<close> through
  nil pointers.
\<close>

theorem Run_first_failure_counterexample:
  "New strict_env all_good full_config [] =
     Return ((Some (fst (constructed all_good full_config [])), None),
             snd (constructed all_good full_config []))
   \<and> Overlay_Service (fst (constructed all_good full_config [])) =
       Some (Obj overlay_NewService [Some (Obj overlay_NewCombinedCache [])])
   \<and> Some (Obj overlay_NewService [Some (Obj overlay_NewCombinedCache [])])
       \<notin> set (launched (fst (constructed all_good full_config [])))
   \<and> launched Core_literal =
       [None, None, None, None, None, None, None, None, None, None, None, None]
   \<and> Run strict_env [0, 1, 2, 3, 4, 5, 6, 7, 8, 9, 10, 11] Core_literal = Some Panic"
proof -
  have new: "New strict_env all_good full_config [] =
     Return ((Some (fst (constructed all_good full_config [])), None),
             snd (constructed all_good full_config []))"
    by (simp add: New_success all_good_def)
  have overlay: "Some (Obj overlay_NewService [Some (Obj overlay_NewCombinedCache [])])
       \<notin> set (launched (fst (constructed all_good full_config [])))"
    by (simp add: evaluate launched_def)
  have empty: "launched Core_literal =
       [None, None, None, None, None, None, None, None, None, None, None, None]"
    by (simp add: launched_def Core_literal_def)
  have twelve: "length (launched Core_literal) = 12"
    by (simp add: empty)
  have order: "sort [0, 1, 2, 3, 4, 5, 6, 7, 8, 9, 10, 11::nat]
      = [0..<length (launched Core_literal)]"
    unfolding twelve by code_simp
  have nil: "None \<in> set (launched Core_literal)"
    by (simp add: empty)
  have panic: "Run strict_env [0, 1, 2, 3, 4, 5, 6, 7, 8, 9, 10, 11] Core_literal = Some Panic"
    using nil order by (rule Run_nil_slot)
  from new overlay empty panic constructed_overlay_service [of all_good full_config "[]"]
  show ?thesis by blast
qed

text \<open>
  C6, as the code has it. \<^verbatim>\<open>Close\<close> calls \<^verbatim>\<open>Close\<close> on every populated slot among the
  thirteen of its sequence (downtime detection chore, metrics chore, graceful-exit
  chore, audit chore, audit worker, rollup, tally, db-cleanup chore, repairer, repair
  checker, overlay service, contact service, metainfo loop), whatever the earlier calls
  returned, and on nothing else: not on a nil slot, and not on a populated slot outside
  the thirteen. It returns the \<^verbatim>\<open>Err\<close> of the group of all errors those calls returned,
  which is nil exactly when every call returned nil.
\<close>

theorem Close_collects_errors:
  "Close env peer h =
     Return (Group_Err (non_nil (close_results env (non_nil (closing_sequence peer)) h)),
             h @ map CloseCall (non_nil (closing_sequence peer)))
   \<and> length (close_results env (non_nil (closing_sequence peer)) h) =
       length (non_nil (closing_sequence peer))
   \<and> (Group_Err (non_nil (close_results env (non_nil (closing_sequence peer)) h)) = None
        \<longleftrightarrow> list_all (\<lambda>r. r = None)
              (close_results env (non_nil (closing_sequence peer)) h))"
  by (simp add: Close_eq length_close_results Group_Err_None non_nil_empty)

theorem Close_collects_errors_witness:
  "Close strict_env (fst (at_audit_worker all_good []))
     [CloseCall (Obj metainfo_NewLoop [Some (Obj caller_pointerDB [])]),
      CloseCall (Obj overlay_NewService [Some (Obj overlay_NewCombinedCache [])])] =
   Return (Some (Combined [Failure ''already closed'', Failure ''already closed'']),
     [CloseCall (Obj metainfo_NewLoop [Some (Obj caller_pointerDB [])]),
      CloseCall (Obj overlay_NewService [Some (Obj overlay_NewCombinedCache [])])]
     @ map CloseCall (non_nil (closing_sequence (fst (at_audit_worker all_good [])))))
   \<and> length (non_nil (closing_sequence (fst (at_audit_worker all_good [])))) = 6"
  using Close_collects_errors [of strict_env "fst (at_audit_worker all_good [])"
      "[CloseCall (Obj metainfo_NewLoop [Some (Obj caller_pointerDB [])]),
        CloseCall (Obj overlay_NewService [Some (Obj overlay_NewCombinedCache [])])]"]
  by (simp add: evaluate closing_sequence_def strict_env_def Group_Err_def)

text \<open>
  C6, as the claim states it, fails: the supervisor \<^verbatim>\<open>New\<close> returns has a version
  service, and \<^verbatim>\<open>Close\<close> does not call its \<^verbatim>\<open>Close\<close>.
\<close>

theorem Close_collects_errors_counterexample:
  "New strict_env all_good full_config [] =
     Return ((Some (fst (constructed all_good full_config [])), None),
             snd (constructed all_good full_config []))
   \<and> Version (fst (constructed all_good full_config [])) =
       Some (Obj version_checker_NewService [])
   \<and> CloseCall (Obj version_checker_NewService [])
       \<notin> set (case Close strict_env (fst (constructed all_good full_config [])) []
                of Panic \<Rightarrow> [] | Return r \<Rightarrow> snd r)"
proof -
  have new: "New strict_env all_good full_config [] =
     Return ((Some (fst (constructed all_good full_config [])), None),
             snd (constructed all_good full_config []))"
    by (simp add: New_success all_good_def)
  have version: "Version (fst (constructed all_good full_config [])) =
       Some (Obj version_checker_NewService [])"
    by (simp add: evaluate)
  have closed: "CloseCall (Obj version_checker_NewService [])
       \<notin> set (case Close strict_env (fst (constructed all_good full_config [])) []
                of Panic \<Rightarrow> [] | Return r \<Rightarrow> snd r)"
    by (simp add: Close_eq evaluate closing_sequence_def)
  from new version closed show ?thesis by blast
qed

text \<open>
  C1, as the code has it. In no state does \<^verbatim>\<open>Close\<close> call \<^verbatim>\<open>Close\<close> through a nil slot.
  \<^verbatim>\<open>Close\<close> keeps no mark of having run and clears no slot: called a second time, it
  calls \<^verbatim>\<open>Close\<close> once more on every populated slot among the thirteen of its sequence,
  in the same order. What such a second call does is the subsystem's affair. When the
  subsystems' calls return (as they do in this model), both calls of \<^verbatim>\<open>Close\<close> return,
  and the second one returns nil exactly when each of the second calls returns nil.
\<close>

theorem Close_twice:
  "Close env peer h =
     Return (Group_Err (non_nil (close_results env (non_nil (closing_sequence peer)) h)),
             h @ map CloseCall (non_nil (closing_sequence peer)))
   \<and> Close env peer (h @ map CloseCall (non_nil (closing_sequence peer))) =
     Return (Group_Err (non_nil (close_results env (non_nil (closing_sequence peer))
                (h @ map CloseCall (non_nil (closing_sequence peer))))),
             h @ map CloseCall (non_nil (closing_sequence peer))
               @ map CloseCall (non_nil (closing_sequence peer)))
   \<and> (Group_Err (non_nil (close_results env (non_nil (closing_sequence peer))
          (h @ map CloseCall (non_nil (closing_sequence peer))))) = None
        \<longleftrightarrow> list_all (\<lambda>r. r = None)
              (close_results env (non_nil (closing_sequence peer))
                 (h @ map CloseCall (non_nil (closing_sequence peer)))))"
  by (simp add: Close_eq Group_Err_None non_nil_empty)

text \<open>
  With subsystems whose \<^verbatim>\<open>Close\<close> always returns nil, the second \<^verbatim>\<open>Close\<close> of a fully
  built supervisor returns nil, after thirteen calls of \<^verbatim>\<open>Close\<close> more.
\<close>

theorem Close_twice_witness:
  "Close (strict_env\<lparr>close_result := \<lambda>x h. None\<rparr>) (fst (constructed all_good full_config []))
     (map CloseCall (non_nil (closing_sequence (fst (constructed all_good full_config []))))) =
   Return (None,
     map CloseCall (non_nil (closing_sequence (fst (constructed all_good full_config []))))
     @ map CloseCall (non_nil (closing_sequence (fst (constructed all_good full_config [])))))
   \<and> length (non_nil (closing_sequence (fst (constructed all_good full_config [])))) = 13"
  using Close_twice [of "strict_env\<lparr>close_result := \<lambda>x h. None\<rparr>"
      "fst (constructed all_good full_config [])" "[]"]
  by (simp add: evaluate closing_sequence_def Group_Err_def)

text \<open>
  C1, as the claim states it, fails: with subsystems that report an error when they
  are closed again, the first \<^verbatim>\<open>Close\<close> of the supervisor \<^verbatim>\<open>New\<close> returns gives nil, the
  second one calls \<^verbatim>\<open>Close\<close> on each of the thirteen subsystems a second time and
  returns the thirteen errors.
\<close>

theorem Close_twice_counterexample:
  "New strict_env all_good full_config [] =
     Return ((Some (fst (constructed all_good full_config [])), None),
             snd (constructed all_good full_config []))
   \<and> Close strict_env (fst (constructed all_good full_config [])) [] =
     Return (None,
       map CloseCall (non_nil (closing_sequence (fst (constructed all_good full_config [])))))
   \<and> Close strict_env (fst (constructed all_good full_config []))
       (map CloseCall (non_nil (closing_sequence (fst (constructed all_good full_config []))))) =
     Return (Some (Combined (replicate 13 (Failure ''already closed''))),
       map CloseCall (non_nil (closing_sequence (fst (constructed all_good full_config []))))
       @ map CloseCall (non_nil (closing_sequence (fst (constructed all_good full_config [])))))
   \<and> length (non_nil (closing_sequence (fst (constructed all_good full_config [])))) = 13"
proof -
  have "New strict_env all_good full_config [] =
     Return ((Some (fst (constructed all_good full_config [])), None),
             snd (constructed all_good full_config []))"
    by (simp add: New_success all_good_def)
  then show ?thesis
    by (simp add: Close_eq evaluate closing_sequence_def strict_env_def Group_Err_def
        numeral_eq_Suc)
qed

text \<open>
  C3 fails on the code. \<^verbatim>\<open>New\<close> builds the contact service before the overlay block has
  assigned \<^verbatim>\<open>peer.Overlay.Service\<close>: the contact service is constructed with a nil overlay
  service, although the supervisor \<^verbatim>\<open>New\<close> returns does have an overlay service.
\<close>

theorem New_contact_service_without_overlay:
  "New strict_env all_good full_config [] =
     Return ((Some (fst (constructed all_good full_config [])), None),
             snd (constructed all_good full_config []))
   \<and> Contact_Service (fst (constructed all_good full_config [])) =
       Some (Obj contact_NewService [None, Some (Obj rpc_NewDefaultDialer [])])
   \<and> Overlay_Service (fst (constructed all_good full_config [])) =
       Some (Obj overlay_NewService [Some (Obj overlay_NewCombinedCache [])])"
  by (simp add: New_success constructed_contact_service constructed_overlay_service
      all_good_def)

lemma Combine_Some:
  "Combine (Some err) c = (case c of None \<Rightarrow> Some err | Some x \<Rightarrow> Some (Combined [err, x]))"
  by (simp add: Combine_def Group_Add_def Group_Err_def split: option.split)

lemma closed_objs_at_audit_worker: "closed_objs (snd (at_audit_worker inp [])) = []"
  by (simp add: at_audit_worker_def at_version_proto_eq Let_def stages Core_literal_def
      closed_objs_append closed_objs_version_line)

text \<open>
  C2, as the code has it. When a step of \<^verbatim>\<open>New\<close> fails, \<^verbatim>\<open>New\<close> returns a nil supervisor
  and a non-nil error, \<^verbatim>\<open>errs.Combine\<close> of the step's error and of what \<^verbatim>\<open>Close\<close> returned on
  the supervisor built so far. That \<^verbatim>\<open>Close\<close> has called \<^verbatim>\<open>Close\<close> once on each of the
  subsystems built so far that \<^verbatim>\<open>Core.Close\<close> covers, and on no other: on none when the
  TLS options or the version info fail (only the version service and the dialer exist
  then); when the audit worker fails, on the worker if one was returned with the
  error, the repairer, the repair checker, the overlay service, the contact service
  and the metainfo loop, in this order. The other subsystems built so far are not
  closed.
\<close>

theorem New_failure:
  "(tlsopts_NewOptions_err inp = Some err \<longrightarrow>
      New env inp config h =
        Return ((None, Some err),
          h @ version_line inp
            @ [Built (Obj version_checker_NewService []),
               LogLine [] Debug ''Starting listener and server'']))
   \<and> (tlsopts_NewOptions_err inp = None \<and> versionInfo_Proto_err inp = Some err \<longrightarrow>
      New env inp config h =
        Return ((None, Some err),
          h @ version_line inp
            @ [Built (Obj version_checker_NewService []),
               LogLine [] Debug ''Starting listener and server'',
               Built (Obj rpc_NewDefaultDialer [])]))
   \<and> (tlsopts_NewOptions_err inp = None \<and> versionInfo_Proto_err inp = None
        \<and> snd (audit_NewWorker_ret inp) = Some err \<longrightarrow>
      (let peer = fst (at_audit_worker inp h);
           h1 = snd (at_audit_worker inp h);
           xs = non_nil (closing_sequence peer);
           close_err = Group_Err (non_nil (close_results env xs h1))
       in New env inp config h =
            Return ((None, Combine (Some err) close_err), h1 @ map CloseCall xs)
          \<and> Close env peer h1 = Return (close_err, h1 @ map CloseCall xs)
          \<and> Combine (Some err) close_err \<noteq> None
          \<and> h1 = h @ snd (at_audit_worker inp [])
          \<and> closed_objs (snd (at_audit_worker inp [])) = []
          \<and> map ctor_of (built_objs (snd (at_audit_worker inp []))) =
              [version_checker_NewService, rpc_NewDefaultDialer, contact_NewService,
               overlay_NewCombinedCache, overlay_NewService, accounting_NewService,
               orders_NewService, metainfo_NewService, metainfo_NewLoop, checker_NewChecker,
               repairer_NewSegmentRepairer, repairer_NewService, audit_Queue,
               audit_NewVerifier, audit_NewReporter]
              @ (if fst (audit_NewWorker_ret inp) then [audit_NewWorker] else [])
          \<and> map ctor_of xs =
              (if fst (audit_NewWorker_ret inp) then [audit_NewWorker] else [])
              @ [repairer_NewService, checker_NewChecker, overlay_NewService,
                 contact_NewService, metainfo_NewLoop]
          \<and> distinct xs
          \<and> set xs \<subseteq> set (built_objs (snd (at_audit_worker inp [])))))"
  (is "?tls \<and> ?proto \<and> ?worker")
proof (intro conjI)
  show ?tls
    by (simp add: New_tls_failure at_tls_options_eq return_failure_eq closing_sequence_def
        Core_literal_def Combine_Some Group_Err_def)
next
  show ?proto
    by (simp add: New_proto_failure at_version_proto_eq return_failure_eq closing_sequence_def
        Core_literal_def Combine_Some Group_Err_def)
next
  show ?worker
  proof (rule impI)
    assume a: "tlsopts_NewOptions_err inp = None \<and> versionInfo_Proto_err inp = None
        \<and> snd (audit_NewWorker_ret inp) = Some err"
    have new: "New env inp config h =
        return_failure env err (fst (at_audit_worker inp h), snd (at_audit_worker inp h))"
      using a by (simp add: New_worker_failure)
    have nonnil: "\<And>c. Combine (Some err) c \<noteq> None"
      by (simp add: Combine_Some split: option.split)
    show "let peer = fst (at_audit_worker inp h);
           h1 = snd (at_audit_worker inp h);
           xs = non_nil (closing_sequence peer);
           close_err = Group_Err (non_nil (close_results env xs h1))
       in New env inp config h =
            Return ((None, Combine (Some err) close_err), h1 @ map CloseCall xs)
          \<and> Close env peer h1 = Return (close_err, h1 @ map CloseCall xs)
          \<and> Combine (Some err) close_err \<noteq> None
          \<and> h1 = h @ snd (at_audit_worker inp [])
          \<and> closed_objs (snd (at_audit_worker inp [])) = []
          \<and> map ctor_of (built_objs (snd (at_audit_worker inp []))) =
              [version_checker_NewService, rpc_NewDefaultDialer, contact_NewService,
               overlay_NewCombinedCache, overlay_NewService, accounting_NewService,
               orders_NewService, metainfo_NewService, metainfo_NewLoop, checker_NewChecker,
               repairer_NewSegmentRepairer, repairer_NewService, audit_Queue,
               audit_NewVerifier, audit_NewReporter]
              @ (if fst (audit_NewWorker_ret inp) then [audit_NewWorker] else [])
          \<and> map ctor_of xs =
              (if fst (audit_NewWorker_ret inp) then [audit_NewWorker] else [])
              @ [repairer_NewService, checker_NewChecker, overlay_NewService,
                 contact_NewService, metainfo_NewLoop]
          \<and> distinct xs
          \<and> set xs \<subseteq> set (built_objs (snd (at_audit_worker inp [])))"
      unfolding Let_def new return_failure_eq
      using nonnil at_audit_worker_history [of inp h] closed_objs_at_audit_worker [of inp]
        built_at_audit_worker [of inp] closing_at_audit_worker [of inp h]
        closing_at_audit_worker_distinct [of inp h] closed_at_audit_worker_built [of inp h]
        Close_eq [of env "fst (at_audit_worker inp h)" "snd (at_audit_worker inp h)"]
      by blast
  qed
qed

text \<open>
  The three failures on concrete inputs, with subsystems whose \<^verbatim>\<open>Close\<close> returns nil
  the first time: the error returned is the step's error, and at the audit worker
  (which returns no worker here) five subsystems are closed.
\<close>

theorem New_failure_witness:
  "New strict_env (all_good\<lparr>tlsopts_NewOptions_err := Some (Failure ''tls'')\<rparr>) full_config [] =
     Return ((None, Some (Failure ''tls'')),
       [LogLine [] Debug ''Binary Version: %s with CommitHash %s, built at %s as Release %v'',
        Built (Obj version_checker_NewService []),
        LogLine [] Debug ''Starting listener and server''])
   \<and> New strict_env (all_good\<lparr>versionInfo_Proto_err := Some (Failure ''proto'')\<rparr>) full_config [] =
     Return ((None, Some (Failure ''proto'')),
       [LogLine [] Debug ''Binary Version: %s with CommitHash %s, built at %s as Release %v'',
        Built (Obj version_checker_NewService []),
        LogLine [] Debug ''Starting listener and server'',
        Built (Obj rpc_NewDefaultDialer [])])
   \<and> fst (case New strict_env (all_good\<lparr>audit_NewWorker_ret := (False, Some (Failure ''worker''))\<rparr>)
           full_config [] of Panic \<Rightarrow> (None, None) | Return r \<Rightarrow> fst r)
       = None
   \<and> map ctor_of (closed_objs
        (case New strict_env (all_good\<lparr>audit_NewWorker_ret := (False, Some (Failure ''worker''))\<rparr>)
           full_config [] of Panic \<Rightarrow> [] | Return r \<Rightarrow> snd r)) =
       [repairer_NewService, checker_NewChecker, overlay_NewService, contact_NewService,
        metainfo_NewLoop]"
proof -
  have tls: "tlsopts_NewOptions_err (all_good\<lparr>tlsopts_NewOptions_err := Some (Failure ''tls'')\<rparr>)
      = Some (Failure ''tls'')"
    by simp
  have proto: "tlsopts_NewOptions_err (all_good\<lparr>versionInfo_Proto_err := Some (Failure ''proto'')\<rparr>) = None
      \<and> versionInfo_Proto_err (all_good\<lparr>versionInfo_Proto_err := Some (Failure ''proto'')\<rparr>)
        = Some (Failure ''proto'')"
    by (simp add: all_good_def)
  have worker: "tlsopts_NewOptions_err (all_good\<lparr>audit_NewWorker_ret := (False, Some (Failure ''worker''))\<rparr>) = None
      \<and> versionInfo_Proto_err (all_good\<lparr>audit_NewWorker_ret := (False, Some (Failure ''worker''))\<rparr>) = None
      \<and> snd (audit_NewWorker_ret (all_good\<lparr>audit_NewWorker_ret := (False, Some (Failure ''worker''))\<rparr>))
        = Some (Failure ''worker'')"
    by (simp add: all_good_def)
  note t = New_failure [of "all_good\<lparr>tlsopts_NewOptions_err := Some (Failure ''tls'')\<rparr>"
      "Failure ''tls''" strict_env full_config "[]", THEN conjunct1, rule_format, OF tls]
  note p = New_failure [of "all_good\<lparr>versionInfo_Proto_err := Some (Failure ''proto'')\<rparr>"
      "Failure ''proto''" strict_env full_config "[]", THEN conjunct2, THEN conjunct1,
      rule_format, OF proto]
  note w = New_failure [of "all_good\<lparr>audit_NewWorker_ret := (False, Some (Failure ''worker''))\<rparr>"
      "Failure ''worker''" strict_env full_config "[]", THEN conjunct2, THEN conjunct2,
      rule_format, OF worker]
  show ?thesis
    using t p w
    by (simp add: Let_def version_line_def all_good_def closed_objs_append
        closed_objs_CloseCall)
qed

text \<open>
  C2, as the claim states it, fails: when the TLS options fail, the version service has
  been built, and \<^verbatim>\<open>New\<close> returns without any call of its \<^verbatim>\<open>Close\<close>.
\<close>

theorem New_failure_counterexample:
  "New strict_env (all_good\<lparr>tlsopts_NewOptions_err := Some (Failure ''tls'')\<rparr>) full_config [] =
     Return ((None, Some (Failure ''tls'')),
       [LogLine [] Debug ''Binary Version: %s with CommitHash %s, built at %s as Release %v'',
        Built (Obj version_checker_NewService []),
        LogLine [] Debug ''Starting listener and server''])
   \<and> Built (Obj version_checker_NewService []) \<in> set
       [LogLine [] Debug ''Binary Version: %s with CommitHash %s, built at %s as Release %v'',
        Built (Obj version_checker_NewService []),
        LogLine [] Debug ''Starting listener and server'']
   \<and> CloseCall (Obj version_checker_NewService []) \<notin> set
       [LogLine [] Debug ''Binary Version: %s with CommitHash %s, built at %s as Release %v'',
        Built (Obj version_checker_NewService []),
        LogLine [] Debug ''Starting listener and server'']"
  by (simp add: New_tls_failure at_tls_options_eq return_failure_eq closing_sequence_def
      Core_literal_def Combine_Some Group_Err_def version_line_def all_good_def)

lemma returns_no_panic:
  "None \<notin> set ts \<Longrightarrow> set order \<subseteq> {0..<length ts} \<Longrightarrow> returns env ts order g \<noteq> Panic"
proof (induction order arbitrary: g)
  case Nil
  show ?case by simp
next
  case (Cons i order)
  from Cons.prems have "ts ! i \<in> set ts" by simp
  with Cons.prems(1) obtain x where x: "ts ! i = Some x"
    by (cases "ts ! i") auto
  from Cons.prems have rest: "set order \<subseteq> {0..<length ts}" by simp
  show ?case
    using x Cons.IH [OF Cons.prems(1) rest] by simp
qed

lemma Run_no_panic:
  assumes "None \<notin> set (launched peer)"
  shows "Run env order peer \<noteq> Some Panic"
proof (cases "sort order = [0..<length (launched peer)]")
  case True
  then have "set order \<subseteq> {0..<length (launched peer)}"
    by (simp add: order_covers)
  with assms have "returns env (launched peer) order \<lparr>kept = None, ctx_canceled = False\<rparr> \<noteq> Panic"
    by (rule returns_no_panic)
  with True show ?thesis
    by (simp add: Run_def split: outcome.split)
next
  case False
  then show ?thesis by (simp add: Run_def)
qed

lemma New_success_from:
  assumes "tlsopts_NewOptions_err inp = None" "versionInfo_Proto_err inp = None"
    "audit_NewWorker_ret inp = (True, None)"
  shows "New env inp config h =
     Return ((Some (fst (constructed inp config [])), None), h @ snd (constructed inp config []))"
  using assms New_success [of inp env config h] constructed_peer [of inp config h]
    constructed_history [of inp config h]
  by simp

lemmas evaluate_any = constructed_def at_audit_worker_def at_version_proto_eq Let_def stages
  Core_literal_def

text \<open>
  C8. With \<^verbatim>\<open>config.GracefulExit.Enabled\<close> false (and every step succeeding), \<^verbatim>\<open>New\<close>
  leaves the graceful-exit slot nil; next to the run with the flag true, its history has
  the log line \<^verbatim>\<open>disabled\<close> in the place of the construction of the chore and is the same
  otherwise. \<^verbatim>\<open>Run\<close> launches the same closures but the chore's, one fewer, none of them
  on a nil slot, and does not panic: it returns when these closures have all returned
  (with the flag true, when one more has), with the first error among them or nil.
  \<^verbatim>\<open>Close\<close> makes the same calls but the chore's, one fewer, and returns.
\<close>

theorem graceful_exit_disabled:
  assumes "tlsopts_NewOptions_err inp = None" and "versionInfo_Proto_err inp = None"
    and "audit_NewWorker_ret inp = (True, None)" and "\<not> GracefulExit_Enabled config"
  shows "let p = fst (constructed inp config []);
             p' = fst (constructed inp (config\<lparr>GracefulExit_Enabled := True\<rparr>) []);
             chore = Obj gracefulexit_NewChore
                       [Some (Obj overlay_NewCombinedCache []),
                        Some (Obj metainfo_NewLoop [pointerDB inp])]
         in New env inp config h = Return ((Some p, None), h @ snd (constructed inp config []))
          \<and> New env inp (config\<lparr>GracefulExit_Enabled := True\<rparr>) h =
              Return ((Some p', None),
                      h @ snd (constructed inp (config\<lparr>GracefulExit_Enabled := True\<rparr>) []))
          \<and> GracefulExit_Chore p = None
          \<and> GracefulExit_Chore p' = Some chore
          \<and> snd (constructed inp config []) =
              map (\<lambda>e. if e = Built chore then LogLine ''gracefulexit'' Info ''disabled'' else e)
                (snd (constructed inp (config\<lparr>GracefulExit_Enabled := True\<rparr>) []))
          \<and> launched p = remove1 (Some chore) (launched p')
          \<and> length (launched p) + 1 = length (launched p')
          \<and> None \<notin> set (launched p)
          \<and> (\<forall>order. Run env order p \<noteq> Some Panic)
          \<and> (\<forall>order. Run env order p =
                (if sort order = [0..<length (launched p)]
                 then Some (Return (first_error env (non_nil (launched p)) order))
                 else None))
          \<and> (\<forall>order. Run env order p' =
                (if sort order = [0..<length (launched p')]
                 then Some (Return (first_error env (non_nil (launched p')) order))
                 else None))
          \<and> non_nil (closing_sequence p) = remove1 chore (non_nil (closing_sequence p'))
          \<and> length (non_nil (closing_sequence p)) + 1 = length (non_nil (closing_sequence p'))
          \<and> (\<exists>e. Close env p h = Return (e, h @ map CloseCall (non_nil (closing_sequence p))))"
proof -
  have worker: "fst (audit_NewWorker_ret inp)"
    using assms(3) by simp
  have launched_ok: "None \<notin> set (launched (fst (constructed inp config [])))"
    using worker assms(4) by (simp add: evaluate_any launched_def)
  have run: "\<forall>order. Run env order (fst (constructed inp config [])) \<noteq> Some Panic"
    using launched_ok by (simp add: Run_no_panic)
  have launched_ok': "None \<notin> set (launched
      (fst (constructed inp (config\<lparr>GracefulExit_Enabled := True\<rparr>) [])))"
    using worker by (simp add: evaluate_any launched_def)
  have waits: "\<forall>order. Run env order (fst (constructed inp config [])) =
      (if sort order = [0..<length (launched (fst (constructed inp config [])))]
       then Some (Return (first_error env
              (non_nil (launched (fst (constructed inp config [])))) order))
       else None)"
    using launched_ok by (simp add: Run_eq)
  have waits': "\<forall>order.
      Run env order (fst (constructed inp (config\<lparr>GracefulExit_Enabled := True\<rparr>) [])) =
      (if sort order = [0..<length (launched
            (fst (constructed inp (config\<lparr>GracefulExit_Enabled := True\<rparr>) [])))]
       then Some (Return (first_error env
              (non_nil (launched
                 (fst (constructed inp (config\<lparr>GracefulExit_Enabled := True\<rparr>) [])))) order))
       else None)"
    using launched_ok' by (simp add: Run_eq)
  have new: "New env inp config h =
      Return ((Some (fst (constructed inp config [])), None), h @ snd (constructed inp config []))"
    using assms(1-3) by (rule New_success_from)
  have new': "New env inp (config\<lparr>GracefulExit_Enabled := True\<rparr>) h =
      Return ((Some (fst (constructed inp (config\<lparr>GracefulExit_Enabled := True\<rparr>) [])), None),
              h @ snd (constructed inp (config\<lparr>GracefulExit_Enabled := True\<rparr>) []))"
    using assms(1-3) by (rule New_success_from)
  have slot: "GracefulExit_Chore (fst (constructed inp config [])) = None"
    using assms(4) by (simp add: constructed_graceful_exit)
  have slot': "GracefulExit_Chore (fst (constructed inp (config\<lparr>GracefulExit_Enabled := True\<rparr>) []))
      = Some (Obj gracefulexit_NewChore
                [Some (Obj overlay_NewCombinedCache []),
                 Some (Obj metainfo_NewLoop [pointerDB inp])])"
    by (simp add: constructed_graceful_exit)
  have history: "snd (constructed inp config []) =
      map (\<lambda>e. if e = Built (Obj gracefulexit_NewChore
                   [Some (Obj overlay_NewCombinedCache []),
                    Some (Obj metainfo_NewLoop [pointerDB inp])])
               then LogLine ''gracefulexit'' Info ''disabled'' else e)
        (snd (constructed inp (config\<lparr>GracefulExit_Enabled := True\<rparr>) []))"
    using worker assms(4) by (simp add: evaluate_any version_line_def)
  have tasks: "launched (fst (constructed inp config [])) =
      remove1 (Some (Obj gracefulexit_NewChore
                [Some (Obj overlay_NewCombinedCache []),
                 Some (Obj metainfo_NewLoop [pointerDB inp])]))
        (launched (fst (constructed inp (config\<lparr>GracefulExit_Enabled := True\<rparr>) [])))"
    using worker assms(4) by (simp add: evaluate_any launched_def)
  have n_tasks: "length (launched (fst (constructed inp config []))) + 1 =
      length (launched (fst (constructed inp (config\<lparr>GracefulExit_Enabled := True\<rparr>) [])))"
    using worker assms(4) by (simp add: evaluate_any launched_def)
  have closes: "non_nil (closing_sequence (fst (constructed inp config []))) =
      remove1 (Obj gracefulexit_NewChore
                [Some (Obj overlay_NewCombinedCache []),
                 Some (Obj metainfo_NewLoop [pointerDB inp])])
        (non_nil (closing_sequence (fst (constructed inp (config\<lparr>GracefulExit_Enabled := True\<rparr>) []))))"
    using worker assms(4) by (simp add: evaluate_any closing_sequence_def)
  have n_closes: "length (non_nil (closing_sequence (fst (constructed inp config [])))) + 1 =
      length (non_nil (closing_sequence (fst (constructed inp (config\<lparr>GracefulExit_Enabled := True\<rparr>) []))))"
    using worker assms(4) by (simp add: evaluate_any closing_sequence_def)
  have close: "\<exists>e. Close env (fst (constructed inp config [])) h =
      Return (e, h @ map CloseCall (non_nil (closing_sequence (fst (constructed inp config [])))))"
    by (simp add: Close_eq)
  show ?thesis
    unfolding Let_def
    using new new' slot slot' history tasks n_tasks launched_ok run waits waits' closes
      n_closes close
    by blast
qed

text \<open>
  On concrete inputs, graceful exit switched off: thirteen closures instead of
  fourteen, twelve calls of \<^verbatim>\<open>Close\<close> instead of thirteen. When thirteen closures have
  returned nil, \<^verbatim>\<open>Run\<close> returns nil; with graceful exit on it has not returned then, and
  returns nil when the fourteenth has returned. \<^verbatim>\<open>Close\<close> returns nil.
\<close>

theorem graceful_exit_disabled_witness:
  "GracefulExit_Chore (fst (constructed all_good (full_config\<lparr>GracefulExit_Enabled := False\<rparr>) []))
     = None
   \<and> LogLine ''gracefulexit'' Info ''disabled''
       \<in> set (snd (constructed all_good (full_config\<lparr>GracefulExit_Enabled := False\<rparr>) []))
   \<and> length (launched (fst (constructed all_good (full_config\<lparr>GracefulExit_Enabled := False\<rparr>) [])))
       = 13
   \<and> length (launched (fst (constructed all_good full_config []))) = 14
   \<and> length (non_nil (closing_sequence
        (fst (constructed all_good (full_config\<lparr>GracefulExit_Enabled := False\<rparr>) [])))) = 12
   \<and> length (non_nil (closing_sequence (fst (constructed all_good full_config [])))) = 13
   \<and> Run strict_env [0, 1, 2, 3, 4, 5, 6, 7, 8, 9, 10, 11, 12]
        (fst (constructed all_good (full_config\<lparr>GracefulExit_Enabled := False\<rparr>) []))
       = Some (Return None)
   \<and> Run strict_env [0, 1, 2, 3, 4, 5, 6, 7, 8, 9, 10, 11, 12]
        (fst (constructed all_good full_config [])) = None
   \<and> Run strict_env [0, 1, 2, 3, 4, 5, 6, 7, 8, 9, 10, 11, 12, 13]
        (fst (constructed all_good full_config [])) = Some (Return None)
   \<and> Close strict_env (fst (constructed all_good (full_config\<lparr>GracefulExit_Enabled := False\<rparr>) [])) []
       = Return (None, map CloseCall (non_nil (closing_sequence
           (fst (constructed all_good (full_config\<lparr>GracefulExit_Enabled := False\<rparr>) [])))))"
proof -
  have pre: "tlsopts_NewOptions_err all_good = None" "versionInfo_Proto_err all_good = None"
    "audit_NewWorker_ret all_good = (True, None)"
    "\<not> GracefulExit_Enabled (full_config\<lparr>GracefulExit_Enabled := False\<rparr>)"
    by (simp_all add: all_good_def)
  have same: "full_config\<lparr>GracefulExit_Enabled := False\<rparr>\<lparr>GracefulExit_Enabled := True\<rparr>
      = full_config"
    by (simp add: full_config_def)
  have full: "length (launched (fst (constructed all_good full_config []))) = 14"
    "length (non_nil (closing_sequence (fst (constructed all_good full_config [])))) = 13"
    by (simp_all add: evaluate launched_def closing_sequence_def)
  have log: "LogLine ''gracefulexit'' Info ''disabled''
      \<in> set (snd (constructed all_good (full_config\<lparr>GracefulExit_Enabled := False\<rparr>) []))"
    by (simp add: evaluate version_line_def)
  have close: "Close strict_env
      (fst (constructed all_good (full_config\<lparr>GracefulExit_Enabled := False\<rparr>) [])) []
       = Return (None, map CloseCall (non_nil (closing_sequence
           (fst (constructed all_good (full_config\<lparr>GracefulExit_Enabled := False\<rparr>) [])))))"
    by (simp add: Close_eq evaluate closing_sequence_def strict_env_def Group_Err_def)
  note g = graceful_exit_disabled [OF pre, where env = strict_env and h = "[]",
      unfolded Let_def same]
  from g have slot: "GracefulExit_Chore
      (fst (constructed all_good (full_config\<lparr>GracefulExit_Enabled := False\<rparr>) [])) = None"
    by blast
  from g have fewer: "length (launched
      (fst (constructed all_good (full_config\<lparr>GracefulExit_Enabled := False\<rparr>) []))) + 1
      = length (launched (fst (constructed all_good full_config [])))"
    by blast
  from g have fewer_closes: "length (non_nil (closing_sequence
      (fst (constructed all_good (full_config\<lparr>GracefulExit_Enabled := False\<rparr>) [])))) + 1
      = length (non_nil (closing_sequence (fst (constructed all_good full_config []))))"
    by blast
  from g have waits: "\<forall>order. Run strict_env order
        (fst (constructed all_good (full_config\<lparr>GracefulExit_Enabled := False\<rparr>) [])) =
      (if sort order = [0..<length (launched
            (fst (constructed all_good (full_config\<lparr>GracefulExit_Enabled := False\<rparr>) [])))]
       then Some (Return (first_error strict_env
              (non_nil (launched
                 (fst (constructed all_good (full_config\<lparr>GracefulExit_Enabled := False\<rparr>) []))))
              order))
       else None)"
    by blast
  from g have waits': "\<forall>order. Run strict_env order (fst (constructed all_good full_config [])) =
      (if sort order = [0..<length (launched (fst (constructed all_good full_config [])))]
       then Some (Return (first_error strict_env
              (non_nil (launched (fst (constructed all_good full_config [])))) order))
       else None)"
    by blast
  from fewer full(1) have thirteen: "length (launched
      (fst (constructed all_good (full_config\<lparr>GracefulExit_Enabled := False\<rparr>) []))) = 13"
    by simp
  from fewer_closes full(2) have twelve: "length (non_nil (closing_sequence
      (fst (constructed all_good (full_config\<lparr>GracefulExit_Enabled := False\<rparr>) [])))) = 12"
    by simp
  have s13: "sort [0, 1, 2, 3, 4, 5, 6, 7, 8, 9, 10, 11, 12::nat] = [0..<13]"
    by code_simp
  have s13': "sort [0, 1, 2, 3, 4, 5, 6, 7, 8, 9, 10, 11, 12::nat] \<noteq> [0..<14]"
    by code_simp
  have s14: "sort [0, 1, 2, 3, 4, 5, 6, 7, 8, 9, 10, 11, 12, 13::nat] = [0..<14]"
    by code_simp
  have run13: "Run strict_env [0, 1, 2, 3, 4, 5, 6, 7, 8, 9, 10, 11, 12]
        (fst (constructed all_good (full_config\<lparr>GracefulExit_Enabled := False\<rparr>) []))
       = Some (Return None)"
    using waits s13 unfolding thirteen by (simp add: first_error_strict)
  have run13': "Run strict_env [0, 1, 2, 3, 4, 5, 6, 7, 8, 9, 10, 11, 12]
        (fst (constructed all_good full_config [])) = None"
    using waits' s13' unfolding full(1) by simp
  have run14: "Run strict_env [0, 1, 2, 3, 4, 5, 6, 7, 8, 9, 10, 11, 12, 13]
        (fst (constructed all_good full_config [])) = Some (Return None)"
    using waits' s14 unfolding full(1) by (simp add: first_error_strict)
  from slot log thirteen full twelve run13 run13' run14 close show ?thesis
    by blast
qed

text \<open>
  C9. When every step succeeds: for the provider \<^verbatim>\<open>"stripecoinpayments"\<close> a payments service
  is built, the accounts slot holds its accounts, the chore slot holds a chore made
  from it, and \<^verbatim>\<open>Run\<close> launches a closure for the chore; for every other provider the
  accounts slot holds the mock accounts, no payments service or chore is built, the
  chore slot is nil and \<^verbatim>\<open>Run\<close> launches no closure for it.
\<close>

theorem payments_provider:
  assumes "tlsopts_NewOptions_err inp = None" and "versionInfo_Proto_err inp = None"
    and "audit_NewWorker_ret inp = (True, None)"
  shows "let p = fst (constructed inp config []);
             service = Obj stripecoinpayments_NewService []
         in New env inp config h = Return ((Some p, None), h @ snd (constructed inp config []))
          \<and> (if Payments_Provider config = ''stripecoinpayments''
              then Payments_Accounts p = Some (Obj stripecoinpayments_Service_Accounts [Some service])
                 \<and> Payments_Chore p = Some (Obj stripecoinpayments_NewChore [Some service])
                 \<and> Built service \<in> set (snd (constructed inp config []))
                 \<and> Built (Obj stripecoinpayments_NewChore [Some service])
                     \<in> set (snd (constructed inp config []))
                 \<and> Payments_Chore p \<in> set (launched p)
              else Payments_Accounts p = Some (Obj mockpayments_Accounts [])
                 \<and> Payments_Chore p = None
                 \<and> stripecoinpayments_NewService
                     \<notin> set (map ctor_of (built_objs (snd (constructed inp config []))))
                 \<and> stripecoinpayments_NewChore
                     \<notin> set (map ctor_of (built_objs (snd (constructed inp config []))))
                 \<and> stripecoinpayments_NewChore
                     \<notin> set (map ctor_of (non_nil (launched p))))
          \<and> length (launched p) =
              12 + (if GracefulExit_Enabled config then 1 else 0)
                 + (if Payments_Provider config = ''stripecoinpayments'' then 1 else 0)
          \<and> None \<notin> set (launched p)"
proof -
  have worker: "fst (audit_NewWorker_ret inp)"
    using assms(3) by simp
  have new: "New env inp config h =
      Return ((Some (fst (constructed inp config [])), None), h @ snd (constructed inp config []))"
    using assms by (rule New_success_from)
  have n: "length (launched (fst (constructed inp config []))) =
      12 + (if GracefulExit_Enabled config then 1 else 0)
         + (if Payments_Provider config = ''stripecoinpayments'' then 1 else 0)"
    by (simp add: evaluate_any launched_def)
  have ok: "None \<notin> set (launched (fst (constructed inp config [])))"
    using worker by (simp add: evaluate_any launched_def)
  show ?thesis
  proof (cases "Payments_Provider config = ''stripecoinpayments''")
    case True
    have built: "Built (Obj stripecoinpayments_NewService []) \<in> set (snd (constructed inp config []))"
      "Built (Obj stripecoinpayments_NewChore [Some (Obj stripecoinpayments_NewService [])])
         \<in> set (snd (constructed inp config []))"
      using True by (simp_all add: evaluate_any)
    have task: "Payments_Chore (fst (constructed inp config []))
        \<in> set (launched (fst (constructed inp config [])))"
      using True by (simp add: evaluate_any launched_def)
    show ?thesis
      unfolding Let_def using True new n ok built task constructed_payments [of inp config "[]"]
      by simp
  next
    case False
    have built: "stripecoinpayments_NewService
          \<notin> set (map ctor_of (built_objs (snd (constructed inp config []))))"
      "stripecoinpayments_NewChore
          \<notin> set (map ctor_of (built_objs (snd (constructed inp config []))))"
      using False
      by (simp_all add: evaluate_any built_objs_append built_objs_version_line)
    have task: "stripecoinpayments_NewChore
          \<notin> set (map ctor_of (non_nil (launched (fst (constructed inp config [])))))"
      using False worker by (simp add: evaluate_any launched_def)
    show ?thesis
      unfolding Let_def using False new n ok built task constructed_payments [of inp config "[]"]
      by simp
  qed
qed

theorem payments_provider_witness:
  "Payments_Accounts (fst (constructed all_good full_config [])) =
     Some (Obj stripecoinpayments_Service_Accounts [Some (Obj stripecoinpayments_NewService [])])
   \<and> Payments_Chore (fst (constructed all_good full_config [])) =
     Some (Obj stripecoinpayments_NewChore [Some (Obj stripecoinpayments_NewService [])])
   \<and> length (launched (fst (constructed all_good full_config []))) = 14
   \<and> Payments_Accounts (fst (constructed all_good (full_config\<lparr>Payments_Provider := ''mock''\<rparr>) [])) =
     Some (Obj mockpayments_Accounts [])
   \<and> Payments_Chore (fst (constructed all_good (full_config\<lparr>Payments_Provider := ''mock''\<rparr>) [])) = None
   \<and> length (launched (fst (constructed all_good (full_config\<lparr>Payments_Provider := ''mock''\<rparr>) [])))
       = 13"
proof -
  have pre: "tlsopts_NewOptions_err all_good = None" "versionInfo_Proto_err all_good = None"
    "audit_NewWorker_ret all_good = (True, None)"
    by (simp_all add: all_good_def)
  from payments_provider [OF pre, where env = strict_env and config = full_config and h = "[]"]
    payments_provider [OF pre, where env = strict_env
      and config = "full_config\<lparr>Payments_Provider := ''mock''\<rparr>" and h = "[]"]
  show ?thesis
    unfolding Let_def by (simp add: full_config_def)
qed

text \<open>
  C10. What \<^verbatim>\<open>Close\<close> does and returns does not depend on what the slots of the version
  service, the orders service, the metainfo service, the garbage-collection service,
  the project-usage service, the payments chore and the downtime-tracking service hold.
  In the supervisor \<^verbatim>\<open>New\<close> returns these slots are populated (the payments chore for
  the provider \<^verbatim>\<open>"stripecoinpayments"\<close>), and none of their subsystems is among those
  \<^verbatim>\<open>Close\<close> closes.
\<close>

theorem Close_leaves_other_slots:
  "Close env (peer\<lparr>Version := v, Orders_Service := os, Metainfo_Service := ms,
                 GarbageCollection_Service := gs, Accounting_ProjectUsage := pu,
                 Payments_Chore := pc, DowntimeTracking_Service := ds\<rparr>) h
     = Close env peer h
   \<and> (tlsopts_NewOptions_err inp = None \<and> versionInfo_Proto_err inp = None
        \<and> audit_NewWorker_ret inp = (True, None) \<longrightarrow>
      (let p = fst (constructed inp config [])
       in New env inp config h0 = Return ((Some p, None), h0 @ snd (constructed inp config []))
          \<and> map (map_option ctor_of) (not_closed p) =
              [Some version_checker_NewService, Some orders_NewService,
               Some metainfo_NewService, Some gc_NewService, Some accounting_NewService,
               if Payments_Provider config = ''stripecoinpayments''
               then Some stripecoinpayments_NewChore else None,
               Some downtime_NewService]
          \<and> (\<exists>e. Close env p h = Return (e, h @ map CloseCall (non_nil (closing_sequence p))))
          \<and> set (non_nil (not_closed p)) \<inter> set (non_nil (closing_sequence p)) = {}))"
  (is "?frame \<and> ?built")
proof (rule conjI)
  show ?frame
    by (simp add: Close_eq closing_sequence_def)
next
  show ?built
  proof (rule impI)
    assume a: "tlsopts_NewOptions_err inp = None \<and> versionInfo_Proto_err inp = None
        \<and> audit_NewWorker_ret inp = (True, None)"
    then have new: "New env inp config h0 =
        Return ((Some (fst (constructed inp config [])), None),
                h0 @ snd (constructed inp config []))"
      by (simp add: New_success_from)
    have close: "\<exists>e. Close env (fst (constructed inp config [])) h =
        Return (e, h @ map CloseCall (non_nil (closing_sequence (fst (constructed inp config [])))))"
      by (simp add: Close_eq)
    have apart: "set (non_nil (not_closed (fst (constructed inp config []))))
        \<inter> set (non_nil (closing_sequence (fst (constructed inp config [])))) = {}"
      by (simp add: evaluate_any not_closed_def closing_sequence_def)
    show "let p = fst (constructed inp config [])
       in New env inp config h0 = Return ((Some p, None), h0 @ snd (constructed inp config []))
          \<and> map (map_option ctor_of) (not_closed p) =
              [Some version_checker_NewService, Some orders_NewService,
               Some metainfo_NewService, Some gc_NewService, Some accounting_NewService,
               if Payments_Provider config = ''stripecoinpayments''
               then Some stripecoinpayments_NewChore else None,
               Some downtime_NewService]
          \<and> (\<exists>e. Close env p h = Return (e, h @ map CloseCall (non_nil (closing_sequence p))))
          \<and> set (non_nil (not_closed p)) \<inter> set (non_nil (closing_sequence p)) = {}"
      unfolding Let_def
      using new close apart constructed_not_closed [of inp config "[]"] by blast
  qed
qed

text \<open>
  On the fully built supervisor: seven subsystems in these slots, none of them closed,
  and \<^verbatim>\<open>Close\<close> does the same with the seven slots emptied.
\<close>

theorem Close_leaves_other_slots_witness:
  "Close strict_env
     ((fst (constructed all_good full_config []))\<lparr>Version := None, Orders_Service := None,
        Metainfo_Service := None, GarbageCollection_Service := None,
        Accounting_ProjectUsage := None, Payments_Chore := None,
        DowntimeTracking_Service := None\<rparr>) []
     = Close strict_env (fst (constructed all_good full_config [])) []
   \<and> length (non_nil (not_closed (fst (constructed all_good full_config [])))) = 7
   \<and> set (non_nil (not_closed (fst (constructed all_good full_config []))))
       \<inter> set (closed_objs (case Close strict_env (fst (constructed all_good full_config [])) []
                             of Panic \<Rightarrow> [] | Return r \<Rightarrow> snd r)) = {}"
proof -
  have pre: "tlsopts_NewOptions_err all_good = None \<and> versionInfo_Proto_err all_good = None
      \<and> audit_NewWorker_ret all_good = (True, None)"
    by (simp add: all_good_def)
  have seven: "length (non_nil (not_closed (fst (constructed all_good full_config [])))) = 7"
    by (simp add: evaluate not_closed_def)
  note frame = Close_leaves_other_slots [where env = strict_env and inp = all_good
      and config = full_config and h = "[]" and h0 = "[]"
      and peer = "fst (constructed all_good full_config [])"
      and v = None and os = None and ms = None and gs = None and pu = None and pc = None
      and ds = None, THEN conjunct1]
  note built = Close_leaves_other_slots [where env = strict_env and inp = all_good
      and config = full_config and h = "[]" and h0 = "[]"
      and peer = "fst (constructed all_good full_config [])"
      and v = None and os = None and ms = None and gs = None and pu = None and pc = None
      and ds = None, THEN conjunct2, rule_format, OF pre]
  have closed: "closed_objs (case Close strict_env (fst (constructed all_good full_config [])) []
        of Panic \<Rightarrow> [] | Return r \<Rightarrow> snd r)
      = non_nil (closing_sequence (fst (constructed all_good full_config [])))"
    by (simp add: Close_eq closed_objs_CloseCall)
  from built have apart: "set (non_nil (not_closed (fst (constructed all_good full_config []))))
      \<inter> set (non_nil (closing_sequence (fst (constructed all_good full_config [])))) = {}"
    unfolding Let_def by blast
  show ?thesis
    using frame seven apart unfolding closed by blast
qed

text \<open>
  The fully built supervisor, closed: thirteen calls, in the order of C7.
\<close>

theorem Close_order_witness:
  "map ctor_of (closed_objs
     (case Close strict_env (fst (constructed all_good full_config [])) []
      of Panic \<Rightarrow> [] | Return r \<Rightarrow> snd r)) =
   [downtime_NewDetectionChore, metrics_NewChore, gracefulexit_NewChore, audit_NewChore,
    audit_NewWorker, rollup_New, tally_New, dbcleanup_NewChore, repairer_NewService,
    checker_NewChecker, overlay_NewService, contact_NewService, metainfo_NewLoop]"
proof -
  from Close_order [of strict_env "fst (constructed all_good full_config [])" "[]"]
  obtain e where "Close strict_env (fst (constructed all_good full_config [])) [] =
     Return (e, [] @ map CloseCall (non_nil
       [DowntimeTracking_DetectionChore (fst (constructed all_good full_config [])),
        Metrics_Chore (fst (constructed all_good full_config [])),
        GracefulExit_Chore (fst (constructed all_good full_config [])),
        Audit_Chore (fst (constructed all_good full_config [])),
        Audit_Worker (fst (constructed all_good full_config [])),
        Accounting_Rollup (fst (constructed all_good full_config [])),
        Accounting_Tally (fst (constructed all_good full_config [])),
        DBCleanup_Chore (fst (constructed all_good full_config [])),
        Repair_Repairer (fst (constructed all_good full_config [])),
        Repair_Checker (fst (constructed all_good full_config [])),
        Overlay_Service (fst (constructed all_good full_config [])),
        Contact_Service (fst (constructed all_good full_config [])),
        Metainfo_Loop (fst (constructed all_good full_config []))]))"
    by blast
  then show ?thesis
    by (simp add: evaluate closed_objs_CloseCall)
qed

end
